theory Spec2Isabelle
  imports Main "HOL-Library.Sublist" "HOL-Library.AList"
begin

section \<open>Text\<close>

text \<open>
  A JavaScript string is a sequence of UTF-16 code units, and \<open>length\<close> counts code
  units. Literals of the source are written \<open>js ''...''\<close>; code units beyond ASCII
  (bullets, emoji) are written as numbers.
\<close>

type_synonym jsstring = "nat list"

definition js :: "string \<Rightarrow> jsstring" where
  "js s = map of_char s"

text \<open>Decimal rendering of an integer inside a template literal.\<close>

fun showNat :: "nat \<Rightarrow> jsstring" where
  "showNat n = (if n < 10 then [48 + n] else showNat (n div 10) @ [48 + n mod 10])"

definition showInt :: "int \<Rightarrow> jsstring" where
  "showInt i = (if i < 0 then 45 # showNat (nat (- i)) else showNat (nat i))"

text \<open>
  White space as \<open>String.prototype.trim\<close> and the regular-expression class \<open>\s\<close>
  see it: the ECMAScript WhiteSpace and LineTerminator code units.
\<close>

definition isWhiteSpace :: "nat \<Rightarrow> bool" where
  "isWhiteSpace c \<longleftrightarrow>
     c = 9 \<or> c = 10 \<or> c = 11 \<or> c = 12 \<or> c = 13 \<or> c = 32 \<or> c = 160 \<or> c = 5760
     \<or> (8192 \<le> c \<and> c \<le> 8202) \<or> c = 8232 \<or> c = 8233 \<or> c = 8239 \<or> c = 8287
     \<or> c = 12288 \<or> c = 65279"

definition isDigit :: "nat \<Rightarrow> bool" where
  "isDigit c \<longleftrightarrow> 48 \<le> c \<and> c \<le> 57"

definition trim :: "jsstring \<Rightarrow> jsstring" where
  "trim s = rev (dropWhile isWhiteSpace (rev (dropWhile isWhiteSpace s)))"

text \<open>
  \<open>toLowerCase\<close>. The letters A-Z go to a-z. Two code units outside ASCII have a lower
  case that involves ASCII: U+0130, capital I with dot above, becomes the two code units
  \<open>i\<close> and U+0307 (the one lower-casing that changes the length of a string), and the
  Kelvin sign U+212A becomes \<open>k\<close>. The other letters outside ASCII, whose lower case is
  again one code unit outside ASCII, are left as they are; so the length of the result is
  that of the code, and text that the model identifies after lower-casing the code
  identifies too.
\<close>

definition lowerUnit :: "nat \<Rightarrow> jsstring" where
  "lowerUnit c =
     (if 65 \<le> c \<and> c \<le> 90 then [c + 32]
      else if c = 304 then [105, 775]
      else if c = 8490 then [107]
      else [c])"

text \<open>
  \<open>toUpperCase\<close> on the letters a-z. It is applied to the confirmation that is compared
  with \<open>LOCKED\<close>, a word that only ASCII letters upper-case to, and to the first
  character of a name, where leaving the letters outside ASCII as they are only affects
  the spelling of a stored name that starts with one.
\<close>

definition upperUnit :: "nat \<Rightarrow> nat" where
  "upperUnit c = (if 97 \<le> c \<and> c \<le> 122 then c - 32 else c)"

definition toLowerCase :: "jsstring \<Rightarrow> jsstring" where
  "toLowerCase s = concat (map lowerUnit s)"

definition toUpperCase :: "jsstring \<Rightarrow> jsstring" where
  "toUpperCase s = map upperUnit s"

text \<open>\<open>hay.includes(needle)\<close>: the needle occurs as a contiguous run.\<close>

fun jsIncludes :: "jsstring \<Rightarrow> jsstring \<Rightarrow> bool" where
  "jsIncludes [] needle = (needle = [])"
| "jsIncludes (c # cs) needle = (prefix needle (c # cs) \<or> jsIncludes cs needle)"

text \<open>\<open>s.split(sep)\<close> for a separator of one code unit: never an empty array.\<close>

fun jsSplit :: "nat \<Rightarrow> jsstring \<Rightarrow> jsstring list" where
  "jsSplit sep [] = [Nil]"
| "jsSplit sep (c # cs) =
     (if c = sep then [] # jsSplit sep cs
      else (case jsSplit sep cs of [] \<Rightarrow> [c # Nil] | w # ws \<Rightarrow> (c # w) # ws))"

text \<open>\<open>xs.join(sep)\<close>.\<close>

fun jsJoin :: "jsstring \<Rightarrow> jsstring list \<Rightarrow> jsstring" where
  "jsJoin sep [] = []"
| "jsJoin sep [x] = x"
| "jsJoin sep (x # y # ys) = x @ sep @ jsJoin sep (y # ys)"

section \<open>Data model (db/queries.ts, db/schema.sql)\<close>

text \<open>
  Rows are records. The columns that carry no behaviour here are left out: the timestamps
  of all tables and the surrogate \<open>id\<close> of the contract, log, token and pattern tables.
  Nullable columns are options. Numbers that the schema declares INT are integers.
\<close>

record User =
  u_id :: jsstring
  phone :: jsstring
  u_name :: "jsstring option"
  timezone :: jsstring
  wake_time :: "jsstring option"
  sleep_time :: "jsstring option"
  eating_window_start :: "jsstring option"
  eating_window_end :: "jsstring option"
  risk_times :: "jsstring list"
  shame_level :: int
  loss_aversion_enabled :: bool
  onboarding_complete :: bool
  onboarding_step :: jsstring

record BinaryAction =
  name :: jsstring
  threshold :: "jsstring option"
  points :: int

record Contract =
  c_user_id :: jsstring
  goal :: jsstring
  binary_actions :: "BinaryAction list"
  rules_text :: "jsstring option"
  active :: bool

record TomorrowPlan =
  eating_window :: jsstring
  first_meal :: jsstring
  walk_time :: jsstring
  strength :: bool
  danger_moment :: jsstring

text \<open>\<open>scores\<close> is a JavaScript object used as a dictionary: keys in insertion order.\<close>

type_synonym scores_map = "(jsstring \<times> int) list"

record DailyLog =
  user_id :: jsstring
  date :: jsstring
  scores :: scores_map
  total_score :: int
  tomorrow_locked :: bool
  tomorrow_plan :: "TomorrowPlan option"
  miss_reason :: "jsstring option"
  dl_notes :: "jsstring option"

record LossEvent =
  le_date :: jsstring
  le_reason :: jsstring
  le_amount :: int

record TokenRecord =
  tk_user_id :: jsstring
  week_start :: jsstring
  starting_tokens :: int
  current_tokens :: int
  loss_events :: "LossEvent list"
  punishment_triggered :: bool

record Pattern =
  p_user_id :: jsstring
  pattern_type :: jsstring
  content :: jsstring
  frequency :: int

text \<open>
  What the two clocks say during one request: \<open>new Date().toISOString().split('T')[0]\<close>
  in the process, \<open>CURRENT_DATE\<close> and \<open>date_trunc('week', CURRENT_DATE)\<close> in the
  database.
\<close>

record clock =
  js_today :: jsstring
  db_today :: jsstring
  db_week :: jsstring

section \<open>Token ledger (db/queries.ts, flows/lossAversion.ts)\<close>

text \<open>
  The \<open>tokens\<close> table, with its UNIQUE(user_id, week_start), is a map from that key to
  the row; the row that \<open>getOrCreateWeekTokens\<close> returns is the one that
  \<open>UPDATE tokens ... WHERE id = $1\<close> rewrites.
\<close>

type_synonym tokens_table = "(jsstring \<times> jsstring) \<rightharpoonup> TokenRecord"

definition getCurrentWeekTokens :: "tokens_table \<Rightarrow> clock \<Rightarrow> jsstring \<Rightarrow> TokenRecord option" where
  "getCurrentWeekTokens T clk userId = T (userId, db_week clk)"

text \<open>The INSERT names the two key columns; the schema's defaults fill the rest.\<close>

definition getOrCreateWeekTokens ::
  "tokens_table \<Rightarrow> clock \<Rightarrow> jsstring \<Rightarrow> TokenRecord \<times> tokens_table" where
  "getOrCreateWeekTokens T clk userId =
     (case getCurrentWeekTokens T clk userId of
        Some tokens \<Rightarrow> (tokens, T)
      | None \<Rightarrow>
          (let tokens = \<lparr>tk_user_id = userId, week_start = db_week clk, starting_tokens = 7,
                          current_tokens = 7, loss_events = [], punishment_triggered = False\<rparr>
           in (tokens, T((userId, db_week clk) \<mapsto> tokens))))"

definition deductToken ::
  "tokens_table \<Rightarrow> clock \<Rightarrow> jsstring \<Rightarrow> jsstring \<Rightarrow> int \<Rightarrow> TokenRecord \<times> tokens_table" where
  "deductToken T clk userId reason amount =
     (let (tokens, T1) = getOrCreateWeekTokens T clk userId;
          newAmount = max 0 (current_tokens tokens - amount);
          lossEvent = \<lparr>le_date = js_today clk, le_reason = reason, le_amount = amount\<rparr>;
          lossEvents = loss_events tokens @ [lossEvent];
          result = tokens\<lparr>current_tokens := newAmount, loss_events := lossEvents,
                           punishment_triggered := (newAmount = 0)\<rparr>
      in (result, T1((userId, db_week clk) \<mapsto> result)))"

text \<open>
  The ledgers the program can produce: the table starts empty, and
  \<open>getOrCreateWeekTokens\<close> and \<open>deductToken\<close> (with a positive amount) are its only
  writers.
\<close>

inductive tokens_reachable :: "tokens_table \<Rightarrow> bool" where
  tr_init: "tokens_reachable Map.empty"
| tr_create: "tokens_reachable T \<Longrightarrow> tokens_reachable (snd (getOrCreateWeekTokens T clk userId))"
| tr_deduct: "tokens_reachable T \<Longrightarrow> 0 < amount \<Longrightarrow>
     tokens_reachable (snd (deductToken T clk userId reason amount))"

text \<open>The ledger invariant of one record.\<close>

definition token_bounds :: "TokenRecord \<Rightarrow> bool" where
  "token_bounds r \<longleftrightarrow>
     0 \<le> current_tokens r \<and> current_tokens r \<le> starting_tokens r
     \<and> (punishment_triggered r \<longleftrightarrow> current_tokens r = 0)"

datatype severity = Minor | Major

definition zero_tokens_message :: jsstring where
  "zero_tokens_message =
     [55357, 57000] @ js '' ZERO TOKENS\<newline>\<newline>You've lost all 7 tokens this week.\<newline>\<newline>The pre-agreed punishment is now active.\<newline>\<newline>This is the cost of breaking your commitment.\<newline>\<newline>Next week starts fresh. But this week, you pay the price.''"

definition processFailure ::
  "tokens_table \<Rightarrow> clock \<Rightarrow> User \<Rightarrow> jsstring \<Rightarrow> severity \<Rightarrow> jsstring \<times> tokens_table" where
  "processFailure T clk user reason sev =
     (if \<not> loss_aversion_enabled user then ([], T)
      else
        (let amount = (if sev = Major then 2 else 1);
             (tokens, T') = deductToken T clk (u_id user) reason amount
         in if punishment_triggered tokens then (zero_tokens_message, T')
            else
              (let remaining = current_tokens tokens;
                   emoji = (if remaining \<le> 2 then [9888, 65039] else [55357, 56521])
               in (emoji @ js '' Token lost: '' @ reason
                     @ js ''\<newline>\<newline>Remaining this week: '' @ showInt remaining
                     @ js ''/7\<newline>\<newline>''
                     @ (if remaining \<le> 2 then js ''You're running low. Every action counts now.''
                        else []),
                   T'))))"

text \<open>
  \<open>todayLog.total_score < totalPossible * 0.5\<close> on integers is
  \<open>2 * total_score < totalPossible\<close>. A reply is pushed only when it is not empty.
\<close>

definition checkDailyFailures ::
  "tokens_table \<Rightarrow> clock \<Rightarrow> User \<Rightarrow> DailyLog \<Rightarrow> int \<Rightarrow> jsstring list \<times> tokens_table" where
  "checkDailyFailures T clk user todayLog totalPossible =
     (if \<not> loss_aversion_enabled user then ([], T)
      else
        (let (messages1, T1) =
               (if 2 * total_score todayLog < totalPossible
                then (let (msg, T') = processFailure T clk user
                                        (js ''Score '' @ showInt (total_score todayLog) @ js ''/''
                                           @ showInt totalPossible) Minor
                      in (if msg \<noteq> [] then [msg] else [], T'))
                else ([], T));
             (messages2, T2) =
               (if \<not> tomorrow_locked todayLog
                then (let (msg, T') = processFailure T1 clk user (js ''Missed nightly lock'') Major
                      in (if msg \<noteq> [] then messages1 @ [msg] else messages1, T'))
                else (messages1, T1))
         in (messages2, T2)))"

section \<open>Daily logs (db/queries.ts)\<close>

text \<open>
  The \<open>daily_logs\<close> table is the list of its rows, in insertion order. A
  \<open>Partial<DailyLog>\<close> over the six data columns says for each column whether the key is
  present (\<open>Some\<close>) and, if so, its value; for a nullable column the value may be
  \<open>null\<close> (\<open>Some None\<close>).
\<close>

type_synonym daily_logs = "DailyLog list"

record DailyLogUpdates =
  up_scores :: "scores_map option"
  up_total_score :: "int option"
  up_tomorrow_locked :: "bool option"
  up_tomorrow_plan :: "TomorrowPlan option option"
  up_miss_reason :: "jsstring option option"
  up_notes :: "jsstring option option"

definition no_updates :: DailyLogUpdates where
  "no_updates = \<lparr>up_scores = None, up_total_score = None, up_tomorrow_locked = None,
                  up_tomorrow_plan = None, up_miss_reason = None, up_notes = None\<rparr>"

datatype db_error = SqlSyntaxError

text \<open>\<open>SELECT * FROM daily_logs WHERE user_id = $1 AND date = $2\<close>, then \<open>rows[0] || null\<close>.\<close>

definition selectLog :: "daily_logs \<Rightarrow> jsstring \<Rightarrow> jsstring \<Rightarrow> DailyLog option" where
  "selectLog L userId d = find (\<lambda>r. user_id r = userId \<and> date r = d) L"

text \<open>
  Every value goes through \<open>typeof v === 'object' ? JSON.stringify(v) : v\<close>. Since
  \<open>typeof null\<close> is \<open>'object'\<close>, a \<open>null\<close> is sent as the text \<open>null\<close>: a TEXT
  column stores these four characters, a JSONB column stores the JSON null, which reads
  back as \<open>null\<close>.
\<close>

definition textParam :: "jsstring option \<Rightarrow> jsstring option" where
  "textParam v = (case v of None \<Rightarrow> Some (js ''null'') | Some t \<Rightarrow> Some t)"

definition setColumns :: "DailyLogUpdates \<Rightarrow> DailyLog \<Rightarrow> DailyLog" where
  "setColumns u r =
     r\<lparr>scores := (case up_scores u of None \<Rightarrow> scores r | Some v \<Rightarrow> v),
       total_score := (case up_total_score u of None \<Rightarrow> total_score r | Some v \<Rightarrow> v),
       tomorrow_locked := (case up_tomorrow_locked u of None \<Rightarrow> tomorrow_locked r | Some v \<Rightarrow> v),
       tomorrow_plan := (case up_tomorrow_plan u of None \<Rightarrow> tomorrow_plan r | Some v \<Rightarrow> v),
       miss_reason := (case up_miss_reason u of None \<Rightarrow> miss_reason r | Some v \<Rightarrow> textParam v),
       dl_notes := (case up_notes u of None \<Rightarrow> dl_notes r | Some v \<Rightarrow> textParam v)\<rparr>"

text \<open>The row an INSERT of only \<open>user_id\<close> and \<open>date\<close> creates, from the schema's defaults.\<close>

definition defaultLog :: "jsstring \<Rightarrow> jsstring \<Rightarrow> DailyLog" where
  "defaultLog userId d =
     \<lparr>user_id = userId, date = d, scores = [], total_score = 0, tomorrow_locked = False,
      tomorrow_plan = None, miss_reason = None, dl_notes = None\<rparr>"

text \<open>
  With an existing row the UPDATE rewrites every row that its WHERE clause selects and
  returns the first; with no key in \<open>updates\<close> its SET clause is empty and the query throws.
  Otherwise the INSERT appends one row.
\<close>

definition upsertDailyLog ::
  "daily_logs \<Rightarrow> jsstring \<Rightarrow> jsstring \<Rightarrow> DailyLogUpdates \<Rightarrow> db_error + (DailyLog \<times> daily_logs)" where
  "upsertDailyLog L userId d updates =
     (case selectLog L userId d of
        Some existing \<Rightarrow>
          (if updates = no_updates then Inl SqlSyntaxError
           else
             (let L' = map (\<lambda>r. if user_id r = userId \<and> date r = d then setColumns updates r else r) L
              in Inr (setColumns updates existing, L')))
      | None \<Rightarrow>
          (let row = setColumns updates (defaultLog userId d)
           in Inr (row, L @ [row])))"

text \<open>The tables the program can produce: \<open>upsertDailyLog\<close> is the only writer.\<close>

inductive logs_reachable :: "daily_logs \<Rightarrow> bool" where
  lr_init: "logs_reachable []"
| lr_upsert: "logs_reachable L \<Longrightarrow> upsertDailyLog L userId d updates = Inr (row, L') \<Longrightarrow>
     logs_reachable L'"

definition getTodayLog :: "daily_logs \<Rightarrow> clock \<Rightarrow> jsstring \<Rightarrow> DailyLog option" where
  "getTodayLog L clk userId = selectLog L userId (db_today clk)"

section \<open>Scoring engine (flows/scorecard.ts)\<close>

record ScoreUpdate =
  su_action :: jsstring
  su_completed :: bool
  su_value :: "int option"

record ScoreResult =
  r_newScore :: int
  r_totalPossible :: int
  r_message :: jsstring

text \<open>
  \<open>scores[action.name] = ...\<close> replaces the value of a key that is there and appends
  the key otherwise (\<open>AList.update\<close>); \<open>Object.values(scores).reduce((a, b) => a + b, 0)\<close>
  adds the values up.
\<close>

definition updateScore ::
  "daily_logs \<Rightarrow> clock \<Rightarrow> User \<Rightarrow> Contract \<Rightarrow> ScoreUpdate \<Rightarrow> db_error + (ScoreResult \<times> daily_logs)" where
  "updateScore L clk user contract update =
     (let today = js_today clk;
          log = getTodayLog L clk (u_id user);
          scores0 = (case log of Some l \<Rightarrow> scores l | None \<Rightarrow> []);
          action = find (\<lambda>a. toLowerCase (name a) = toLowerCase (su_action update))
                     (binary_actions contract)
      in case action of
           None \<Rightarrow>
             Inr (\<lparr>r_newScore = 0, r_totalPossible = 0,
                   r_message = js ''Unknown action: '' @ su_action update\<rparr>, L)
         | Some a \<Rightarrow>
             (let earned = (if su_completed update then points a else 0);
                  scores1 = AList.update (name a) earned scores0;
                  totalScore = sum_list (map snd scores1);
                  total = sum_list (map points (binary_actions contract))
              in case upsertDailyLog L (u_id user) today
                        (no_updates\<lparr>up_scores := Some scores1, up_total_score := Some totalScore\<rparr>) of
                   Inl e \<Rightarrow> Inl e
                 | Inr (row, L') \<Rightarrow>
                     Inr (\<lparr>r_newScore = totalScore, r_totalPossible = total,
                           r_message = (if su_completed update then [10003] else [10007]) @ js '' ''
                             @ name a @ js '': '' @ showInt earned @ js ''/'' @ showInt (points a)
                             @ js '' pts\<newline>\<newline>Today: '' @ showInt totalScore @ js ''/''
                             @ showInt total\<rparr>, L')))"

section \<open>Shame escalation (flows/photoShame.ts)\<close>

record ShameEscalation =
  level :: nat
  trigger :: jsstring
  se_message :: jsstring
  showBaseline :: bool
  showRecent :: bool
  actionRequired :: jsstring

text \<open>The loop over the logs, newest first, with its counter and its \<open>break\<close>.\<close>

fun countFailuresFrom :: "nat \<Rightarrow> DailyLog list \<Rightarrow> nat" where
  "countFailuresFrom count [] = count"
| "countFailuresFrom count (log # logs) =
     (if total_score log < 5 then countFailuresFrom (count + 1) logs else count)"

definition countConsecutiveFailures :: "DailyLog list \<Rightarrow> nat" where
  "countConsecutiveFailures logs = countFailuresFrom 0 logs"

text \<open>
  \<open>repeatExcuses[0]?.content || 'no clear reason'\<close>: the fallback also replaces an empty
  content.
\<close>

definition firstExcuse :: "Pattern list \<Rightarrow> jsstring" where
  "firstExcuse repeatExcuses =
     (case repeatExcuses of
        [] \<Rightarrow> js ''no clear reason''
      | p # ps \<Rightarrow> if content p = [] then js ''no clear reason'' else content p)"

definition determineShameEscalation ::
  "User \<Rightarrow> DailyLog list \<Rightarrow> Pattern list \<Rightarrow> ShameEscalation option" where
  "determineShameEscalation user recentLogs patterns =
     (if shame_level user = 0 then None
      else
        (let failedDays = length (filter (\<lambda>l. total_score l < 5) recentLogs);
             consecutiveFailures = countConsecutiveFailures recentLogs;
             missedLocks = length (filter (\<lambda>l. \<not> tomorrow_locked l) recentLogs);
             repeatExcuses = filter (\<lambda>p. pattern_type p = js ''miss_reason'' \<and> frequency p \<ge> 2)
                               patterns
         in if shame_level user \<ge> 1 \<and> failedDays \<ge> 1 \<and> failedDays \<le> 2 then
              Some \<lparr>level = 1, trigger = js ''single_slip'',
                    se_message = js ''You slipped. Remember where you started.'',
                    showBaseline = True, showRecent = False,
                    actionRequired = js ''What's the ONE thing you'll do differently today?''\<rparr>
            else if shame_level user \<ge> 2 \<and> (consecutiveFailures \<ge> 2 \<or> length repeatExcuses > 0) then
              Some \<lparr>level = 2, trigger = js ''repeat_failure'',
                    se_message = js ''This is the ''
                      @ (if consecutiveFailures > 1 then showNat consecutiveFailures @ js ''th''
                         else js ''2nd'')
                      @ js '' time this week. The excuse: '' @ [34] @ firstExcuse repeatExcuses @ [34]
                      @ js ''. Same pattern, same result.'',
                    showBaseline = True, showRecent = True,
                    actionRequired = js ''What will you do TODAY to break this pattern?''\<rparr>
            else if shame_level user \<ge> 3 \<and> failedDays \<ge> 4 then
              Some \<lparr>level = 3, trigger = js ''severe_pattern'',
                    se_message = js ''4+ days below target. Look at these photos. Nothing changed. The only person who can change this is you.'',
                    showBaseline = True, showRecent = True,
                    actionRequired = js ''Tell me what you're going to do RIGHT NOW.''\<rparr>
            else None))"

subsection \<open>The tiers as the specification words them\<close>

text \<open>
  The condition of each tier, in the specification's terms: the number of days of the
  window with a total below 5, the run of such days counted from the newest log backward
  up to the first day with a total of 5 or more, and the recorded \<open>miss_reason\<close> patterns
  seen at least twice.
\<close>

definition failed_days :: "DailyLog list \<Rightarrow> nat" where
  "failed_days logs = length (filter (\<lambda>l. total_score l < 5) logs)"

definition consecutive_failures :: "DailyLog list \<Rightarrow> nat" where
  "consecutive_failures logs = length (takeWhile (\<lambda>l. total_score l < 5) logs)"

definition repeated_excuse :: "Pattern list \<Rightarrow> bool" where
  "repeated_excuse patterns \<longleftrightarrow>
     list_ex (\<lambda>p. pattern_type p = js ''miss_reason'' \<and> frequency p \<ge> 2) patterns"

definition tier_condition :: "nat \<Rightarrow> int \<Rightarrow> DailyLog list \<Rightarrow> Pattern list \<Rightarrow> bool" where
  "tier_condition t shame logs patterns \<longleftrightarrow>
     (if t = 3 then shame \<ge> 3 \<and> failed_days logs \<ge> 4
      else if t = 2 then shame \<ge> 2 \<and> (consecutive_failures logs \<ge> 2 \<or> repeated_excuse patterns)
      else if t = 1 then shame \<ge> 1 \<and> 1 \<le> failed_days logs \<and> failed_days logs \<le> 2
      else False)"

text \<open>
  The first tier, in a given priority order, whose condition holds; none when the shame
  level is 0 or no condition holds.
\<close>

definition first_matching_tier :: "nat list \<Rightarrow> int \<Rightarrow> DailyLog list \<Rightarrow> Pattern list \<Rightarrow> nat option" where
  "first_matching_tier order shame logs patterns =
     (if shame = 0 then None else find (\<lambda>t. tier_condition t shame logs patterns) order)"

section \<open>Onboarding (flows/onboarding.ts)\<close>

text \<open>
  The \<open>users\<close> table is a map from the primary key to the row; a \<open>Partial<User>\<close>
  is the function that sets the given columns.
\<close>

type_synonym users_table = "jsstring \<rightharpoonup> User"

definition updateUser :: "users_table \<Rightarrow> jsstring \<Rightarrow> (User \<Rightarrow> User) \<Rightarrow> users_table" where
  "updateUser U userId updates = (case U userId of None \<Rightarrow> U | Some u \<Rightarrow> U(userId \<mapsto> updates u))"

text \<open>The in-memory \<open>onboardingData\<close> map, with the two keys the flow stores.\<close>

record OnboardingData =
  od_goal :: "jsstring option"
  od_binaryActions :: "BinaryAction list option"

type_synonym onboarding_store = "jsstring \<rightharpoonup> OnboardingData"

definition DEFAULT_BINARY_ACTIONS :: "BinaryAction list" where
  "DEFAULT_BINARY_ACTIONS =
     [\<lparr>name = js ''calories'', threshold = Some (js ''under target''), points = 2\<rparr>,
      \<lparr>name = js ''protein'', threshold = Some (js ''hit target''), points = 2\<rparr>,
      \<lparr>name = js ''walk'', threshold = Some (js ''10k steps''), points = 1\<rparr>,
      \<lparr>name = js ''strength'', threshold = Some (js ''completed''), points = 1\<rparr>,
      \<lparr>name = js ''creatine'', threshold = Some (js ''taken''), points = 1\<rparr>,
      \<lparr>name = js ''fasting'', threshold = Some (js ''in window''), points = 1\<rparr>,
      \<lparr>name = js ''weigh_in'', threshold = Some (js ''done''), points = 1\<rparr>,
      \<lparr>name = js ''photo'', threshold = Some (js ''taken''), points = 1\<rparr>]"

definition greetings :: "jsstring list" where
  "greetings = [js ''hi'', js ''hello'', js ''hey'', js ''yo'', js ''sup'', js ''hola'',
                js ''start'', js ''begin'']"

definition isGreeting :: "jsstring \<Rightarrow> bool" where
  "isGreeting msg \<longleftrightarrow> msg \<in> set greetings \<or> length msg < 4"

text \<open>
  \<open>ONBOARDING_PROMPTS\<close> of prompts/system.ts has no \<open>name_received\<close>: for an accepted
  name the call \<open>ONBOARDING_PROMPTS.name_received(capitalizedName)\<close> throws a TypeError,
  after the awaited \<open>updateUser\<close> has stored the name and the next step. The handler
  returns the reply or the exception, and the users table.
\<close>

datatype js_error = TypeError

definition handleNameInput ::
  "users_table \<Rightarrow> User \<Rightarrow> jsstring \<Rightarrow> (js_error + jsstring) \<times> users_table" where
  "handleNameInput U user msg =
     (let nm = trim msg
      in if isGreeting (toLowerCase nm)
         then (Inr (js ''What's your name? Just your first name is fine.''), U)
         else
           (let firstName = (case jsSplit 32 nm of [] \<Rightarrow> [] | w # ws \<Rightarrow> w);
                capitalizedName = toUpperCase (take 1 firstName) @ toLowerCase (drop 1 firstName)
            in (Inl TypeError,
                updateUser U (u_id user)
                  (\<lambda>u. u\<lparr>u_name := Some capitalizedName,
                          onboarding_step := js ''awaiting_goal''\<rparr>))))"

text \<open>The class \<open>[-*\<bullet>\d.)\s]\<close> of the bullet and numbering prefix (the bullet is U+2022).\<close>

definition isBulletChar :: "nat \<Rightarrow> bool" where
  "isBulletChar c \<longleftrightarrow>
     c = 45 \<or> c = 42 \<or> c = 8226 \<or> isDigit c \<or> c = 46 \<or> c = 41 \<or> isWhiteSpace c"

text \<open>\<open>line.replace(/^[-*\<bullet>\d.)\s]+/, '').trim()\<close>.\<close>

definition cleanLine :: "jsstring \<Rightarrow> jsstring" where
  "cleanLine line = trim (dropWhile isBulletChar line)"

text \<open>\<open>s.replace(/\s+/g, '_')\<close>: every maximal run of white space becomes one underscore.\<close>

function replaceWhiteSpace :: "jsstring \<Rightarrow> jsstring" where
  "replaceWhiteSpace [] = []"
| "replaceWhiteSpace (c # cs) =
     (if isWhiteSpace c then 95 # replaceWhiteSpace (dropWhile isWhiteSpace cs)
      else c # replaceWhiteSpace cs)"
  by pat_completeness auto
termination
  by (relation "measure length") (auto intro: le_imp_less_Suc length_dropWhile_le)

text \<open>
  Group 1 of \<open>/^(.+?)\s+(under|over|at least|min|max|hit|done|completed)?\s*(\d+)?/i\<close>:
  everything after \<open>\s+\<close> is optional, and the lazy \<open>.+?\<close> stops at the first
  white-space character that follows at least one character, so the regular expression
  matches exactly when the text holds white space after its first word, and group 1 is
  that word. (The characters that \<open>.\<close> refuses are white space.)
\<close>

definition matchThreshold :: "jsstring \<Rightarrow> jsstring option" where
  "matchThreshold cleaned =
     (let word = takeWhile (\<lambda>c. \<not> isWhiteSpace c) cleaned
      in if word \<noteq> [] \<and> length word < length cleaned then Some word else None)"

text \<open>The loop over the lines that pushes one action per line, with its \<open>continue\<close>.\<close>

fun parseLines :: "jsstring list \<Rightarrow> BinaryAction list \<Rightarrow> BinaryAction list" where
  "parseLines [] actions = actions"
| "parseLines (line # lines) actions =
     (let cleaned = cleanLine line
      in if cleaned = [] then parseLines lines actions
         else
           (case matchThreshold cleaned of
              Some m1 \<Rightarrow>
                parseLines lines
                  (actions @ [\<lparr>name = replaceWhiteSpace (toLowerCase m1),
                                threshold = Some cleaned, points = 1\<rparr>])
            | None \<Rightarrow>
                parseLines lines
                  (actions @ [\<lparr>name = replaceWhiteSpace (toLowerCase cleaned),
                                threshold = Some (js ''completed''), points = 1\<rparr>])))"

definition parseBinaryActions :: "jsstring \<Rightarrow> BinaryAction list" where
  "parseBinaryActions msg =
     (let lines = filter (\<lambda>l. trim l \<noteq> []) (jsSplit 10 msg);
          actions = parseLines lines []
      in if length actions \<ge> 2
         then actions[0 := (actions ! 0)\<lparr>points := 2\<rparr>, 1 := (actions ! 1)\<lparr>points := 2\<rparr>]
         else actions)"

definition times_setup :: jsstring where
  "times_setup = js ''Good. Now I need your schedule:\<newline>\<newline>1. Wake time? (e.g., \"6:30am\")\<newline>2. Sleep time? (e.g., \"10:30pm\")\<newline>3. Eating window? (e.g., \"12pm-8pm\")\<newline>4. What time(s) are you most likely to fail? (Your danger zones)\<newline>\<newline>Format: Wake: X, Sleep: X, Eating: X-X, Danger: X''"

definition handleActionsInput ::
  "users_table \<Rightarrow> onboarding_store \<Rightarrow> User \<Rightarrow> jsstring
     \<Rightarrow> jsstring \<times> users_table \<times> onboarding_store" where
  "handleActionsInput U D user msg =
     (let actions = parseBinaryActions msg;
          data = (case D (u_id user) of Some d \<Rightarrow> d
                  | None \<Rightarrow> \<lparr>od_goal = None, od_binaryActions = None\<rparr>);
          data' = data\<lparr>od_binaryActions :=
                          Some (if length actions > 0 then actions else DEFAULT_BINARY_ACTIONS)\<rparr>
      in (times_setup,
          updateUser U (u_id user) (\<lambda>u. u\<lparr>onboarding_step := js ''awaiting_times''\<rparr>),
          D(u_id user \<mapsto> data')))"

text \<open>
  The actions that \<open>handleContractConfirm\<close> hands to \<open>createContract\<close>:
  \<open>data.binaryActions || DEFAULT_BINARY_ACTIONS\<close>, where \<open>data\<close> is the user's entry of
  \<open>onboardingData\<close> or \<open>{}\<close>.
\<close>

definition contractActions :: "onboarding_store \<Rightarrow> User \<Rightarrow> BinaryAction list" where
  "contractActions D user =
     (case D (u_id user) of
        None \<Rightarrow> DEFAULT_BINARY_ACTIONS
      | Some data \<Rightarrow>
          (case od_binaryActions data of None \<Rightarrow> DEFAULT_BINARY_ACTIONS | Some acts \<Rightarrow> acts))"



subsection \<open>The weighting rule as the specification words it\<close>

text \<open>
  Every parsed action has one point, except that the first two have two; and the
  variant in which this exception needs at least two parsed actions.
\<close>

definition first_two_weighted :: "BinaryAction list \<Rightarrow> bool" where
  "first_two_weighted actions \<longleftrightarrow>
     list_all (\<lambda>i. points (actions ! i) = (if i < 2 then 2 else 1)) [0..<length actions]"

definition first_two_weighted_if_two :: "BinaryAction list \<Rightarrow> bool" where
  "first_two_weighted_if_two actions \<longleftrightarrow>
     list_all (\<lambda>i. points (actions ! i) = (if i < 2 \<and> length actions \<ge> 2 then 2 else 1))
       [0..<length actions]"

section \<open>Pattern memory (db/queries.ts)\<close>

text \<open>
  The \<open>patterns\<close> table is the list of its rows. \<open>recordPattern\<close> raises the frequency
  of the first row with the same user, type and content (the row its SELECT returned), or
  appends a row with the default frequency 1.
\<close>

fun bumpFirst :: "(Pattern \<Rightarrow> bool) \<Rightarrow> Pattern list \<Rightarrow> Pattern list" where
  "bumpFirst same [] = []"
| "bumpFirst same (p # ps) =
     (if same p then p\<lparr>frequency := frequency p + 1\<rparr> # ps else p # bumpFirst same ps)"

definition recordPattern :: "Pattern list \<Rightarrow> jsstring \<Rightarrow> jsstring \<Rightarrow> jsstring \<Rightarrow> Pattern list" where
  "recordPattern P userId patternType text =
     (let same = (\<lambda>p. p_user_id p = userId \<and> pattern_type p = patternType \<and> content p = text)
      in case find same P of
           Some existing \<Rightarrow> bumpFirst same P
         | None \<Rightarrow> P @ [\<lparr>p_user_id = userId, pattern_type = patternType, content = text,
                           frequency = 1\<rparr>])"

section \<open>Nightly lock (flows/nightlyLock.ts)\<close>

datatype nl_step = Start | Scoring | MissReason | Planning | Confirm

record NightlyLockState =
  step :: nl_step
  todayScores :: "scores_map option"
  missedItems :: "jsstring list option"
  missReason :: "jsstring option"
  tomorrowPlan :: "TomorrowPlan option"

text \<open>The in-memory \<open>nightlyLockState\<close> map.\<close>

type_synonym nightly_store = "jsstring \<rightharpoonup> NightlyLockState"

definition isInNightlyLock :: "nightly_store \<Rightarrow> jsstring \<Rightarrow> bool" where
  "isInNightlyLock S userId \<longleftrightarrow> S userId \<noteq> None"

definition resetNightlyLock :: "nightly_store \<Rightarrow> jsstring \<Rightarrow> nightly_store" where
  "resetNightlyLock S userId = S(userId := None)"

definition nightly_lock_reason :: "jsstring list \<Rightarrow> jsstring" where
  "nightly_lock_reason missed =
     js ''You missed: '' @ jsJoin (js '', '') missed @ js ''\<newline>\<newline>One sentence: What happened?''"

definition nightly_lock_plan :: jsstring where
  "nightly_lock_plan = js ''Now lock tomorrow:\<newline>\<newline>1. Eating window?\<newline>2. First meal time and what?\<newline>3. Walk: when?\<newline>4. Strength: yes/no?\<newline>5. One danger moment you anticipate?\<newline>\<newline>Be specific. \"Morning\" is not a time.''"

definition startNightlyLock :: "nightly_store \<Rightarrow> User \<Rightarrow> Contract \<Rightarrow> jsstring \<times> nightly_store" where
  "startNightlyLock S user contract =
     (let actions = binary_actions contract;
          actionList = jsJoin [10] (map (\<lambda>a. js ''- '' @ name a) actions)
      in (js ''Time to lock tomorrow.\<newline>\<newline>First, score today. Which of these did you complete?\<newline>\<newline>''
            @ actionList
            @ js ''\<newline>\<newline>Reply with what you hit (e.g., \"calories, protein, walk\") or \"all\" / \"none\".'',
          S(u_id user \<mapsto> \<lparr>step = Scoring, todayScores = None, missedItems = None,
                              missReason = None, tomorrowPlan = None\<rparr>)))"

text \<open>\<open>s.replace(a, b)\<close> with a string pattern of one code unit: the first occurrence only.\<close>

fun replaceFirst :: "nat \<Rightarrow> nat \<Rightarrow> jsstring \<Rightarrow> jsstring" where
  "replaceFirst a b [] = []"
| "replaceFirst a b (c # cs) = (if c = a then b # cs else c # replaceFirst a b cs)"

text \<open>
  \<open>s.split(/[,\s]+/)\<close>: the pieces between the maximal runs of separators, an empty piece
  before a leading and after a trailing run.
\<close>

function jsSplitRuns :: "(nat \<Rightarrow> bool) \<Rightarrow> jsstring \<Rightarrow> jsstring list" where
  "jsSplitRuns sep [] = [Nil]"
| "jsSplitRuns sep (c # cs) =
     (if sep c then [] # jsSplitRuns sep (dropWhile sep cs)
      else (case jsSplitRuns sep cs of [] \<Rightarrow> [c # Nil] | w # ws \<Rightarrow> (c # w) # ws))"
  by pat_completeness auto
termination
  by (relation "measure (\<lambda>(sep, s). length s)") (auto intro: le_imp_less_Suc length_dropWhile_le)

text \<open>The first loop over the actions: those whose name the message mentions.\<close>

fun matchMentioned ::
  "jsstring \<Rightarrow> BinaryAction list \<Rightarrow> jsstring list \<Rightarrow> jsstring list \<Rightarrow> jsstring list \<times> jsstring list" where
  "matchMentioned lower [] completedItems missed = (completedItems, missed)"
| "matchMentioned lower (action # actions) completedItems missed =
     (let actionLower = toLowerCase (name action)
      in if jsIncludes lower actionLower \<or> jsIncludes lower (replaceFirst 95 32 actionLower)
         then matchMentioned lower actions (completedItems @ [name action]) missed
         else matchMentioned lower actions completedItems (missed @ [name action]))"

text \<open>
  The second loop, run when the first found nothing; it pushes onto the same two arrays,
  so \<open>missedItems\<close> still holds what the first loop pushed.
\<close>

fun matchWords ::
  "jsstring list \<Rightarrow> BinaryAction list \<Rightarrow> jsstring list \<Rightarrow> jsstring list \<Rightarrow> jsstring list \<times> jsstring list" where
  "matchWords words [] completedItems missed = (completedItems, missed)"
| "matchWords words (action # actions) completedItems missed =
     (let found = list_ex (\<lambda>w. jsIncludes (toLowerCase (name action)) w
                               \<or> jsIncludes w (take 4 (toLowerCase (name action)))) words
      in if found
         then matchWords words actions (completedItems @ [name action]) missed
         else matchWords words actions completedItems (missed @ [name action]))"

text \<open>The loop that fills \<open>scores\<close> and adds up \<open>totalScore\<close>.\<close>

fun scoreActions ::
  "jsstring list \<Rightarrow> BinaryAction list \<Rightarrow> scores_map \<Rightarrow> int \<Rightarrow> scores_map \<times> int" where
  "scoreActions completedItems [] scores0 totalScore = (scores0, totalScore)"
| "scoreActions completedItems (action # actions) scores0 totalScore =
     (if name action \<in> set completedItems
      then scoreActions completedItems actions
             (AList.update (name action) (points action) scores0) (totalScore + points action)
      else scoreActions completedItems actions (AList.update (name action) 0 scores0) totalScore)"

definition handleScoring ::
  "daily_logs \<Rightarrow> nightly_store \<Rightarrow> clock \<Rightarrow> User \<Rightarrow> Contract \<Rightarrow> jsstring \<Rightarrow> NightlyLockState
     \<Rightarrow> db_error + (jsstring \<times> daily_logs \<times> nightly_store)" where
  "handleScoring L S clk user contract msg state =
     (let lower = toLowerCase msg;
          actions = binary_actions contract;
          (completedItems, missed) =
            (if lower = js ''all'' then (map name actions, [])
             else if lower = js ''none'' then ([], map name actions)
             else
               (let (c, m) = matchMentioned lower actions [] []
                in if length c = 0
                   then matchWords
                          (filter (\<lambda>w. length w > 2)
                             (jsSplitRuns (\<lambda>c. c = 44 \<or> isWhiteSpace c) lower))
                          actions c m
                   else (c, m)));
          (scores1, totalScore) = scoreActions completedItems actions [] 0
      in case upsertDailyLog L (u_id user) (js_today clk)
                (no_updates\<lparr>up_scores := Some scores1, up_total_score := Some totalScore\<rparr>) of
           Inl e \<Rightarrow> Inl e
         | Inr (row, L') \<Rightarrow>
             (let state1 = state\<lparr>todayScores := Some scores1, missedItems := Some missed\<rparr>
              in if length missed > 0
                 then Inr (nightly_lock_reason missed, L',
                           S(u_id user \<mapsto> state1\<lparr>step := MissReason\<rparr>))
                 else Inr (js ''Perfect day. '' @ showInt totalScore @ js ''/10.\<newline>\<newline>''
                             @ nightly_lock_plan, L',
                           S(u_id user \<mapsto> state1\<lparr>step := Planning\<rparr>))))"

text \<open>
  The two free-text parsers of the later steps, \<open>parseTomorrowPlan\<close> and the time-of-day
  match \<open>/(\d{1,2}[:\s]?\d{0,2}\s*(?:am|pm)?)/i\<close> of \<open>handleMissReason\<close>, are
  parameters of the handlers that call them.
\<close>

definition handleMissReason ::
  "(jsstring \<Rightarrow> jsstring option) \<Rightarrow> Pattern list \<Rightarrow> nightly_store \<Rightarrow> User \<Rightarrow> jsstring
     \<Rightarrow> NightlyLockState \<Rightarrow> jsstring \<times> Pattern list \<times> nightly_store" where
  "handleMissReason timeMatch P S user msg state =
     (let state1 = state\<lparr>missReason := Some (trim msg)\<rparr>;
          P1 = recordPattern P (u_id user) (js ''miss_reason'') (trim msg);
          P2 = (case timeMatch msg of
                  Some t \<Rightarrow> recordPattern P1 (u_id user) (js ''failure_time'') t
                | None \<Rightarrow> P1)
      in (js ''Noted: '' @ [34] @ trim msg @ [34] @ js ''\<newline>\<newline>'' @ nightly_lock_plan,
          P2, S(u_id user \<mapsto> state1\<lparr>step := Planning\<rparr>)))"

definition handlePlanning ::
  "(jsstring \<Rightarrow> TomorrowPlan) \<Rightarrow> nightly_store \<Rightarrow> User \<Rightarrow> jsstring \<Rightarrow> NightlyLockState
     \<Rightarrow> jsstring \<times> nightly_store" where
  "handlePlanning parseTomorrowPlan S user msg state =
     (let plan = parseTomorrowPlan msg;
          state1 = state\<lparr>tomorrowPlan := Some plan, step := Confirm\<rparr>
      in (js ''Tomorrow's plan:\<newline>\<newline>''
            @ [55357, 56525] @ js '' Eating: '' @ eating_window plan @ [10]
            @ [55356, 57213, 65039] @ js '' First meal: '' @ first_meal plan @ [10]
            @ [55357, 57014] @ js '' Walk: '' @ walk_time plan @ [10]
            @ [55357, 56490] @ js '' Strength: ''
            @ (if strength plan then js ''YES'' else js ''NO'') @ [10]
            @ [9888, 65039] @ js '' Danger: '' @ danger_moment plan
            @ js ''\<newline>\<newline>Reply \"LOCKED\" to confirm.'',
          S(u_id user \<mapsto> state1)))"

text \<open>\<open>state.missReason || null\<close>: an empty reason counts as none.\<close>

definition handleConfirm ::
  "daily_logs \<Rightarrow> nightly_store \<Rightarrow> clock \<Rightarrow> User \<Rightarrow> jsstring \<Rightarrow> NightlyLockState
     \<Rightarrow> db_error + (jsstring \<times> daily_logs \<times> nightly_store)" where
  "handleConfirm L S clk user msg state =
     (let confirmation = toUpperCase (trim msg)
      in if confirmation = js ''LOCKED''
         then
           (case upsertDailyLog L (u_id user) (js_today clk)
                   (no_updates\<lparr>up_tomorrow_locked := Some True,
                                up_tomorrow_plan := Some (tomorrowPlan state),
                                up_miss_reason :=
                                  Some (case missReason state of
                                          None \<Rightarrow> None
                                        | Some r \<Rightarrow> if r = [] then None else Some r)\<rparr>) of
              Inl e \<Rightarrow> Inl e
            | Inr (row, L') \<Rightarrow>
                (let score = (case todayScores state of
                                Some sc \<Rightarrow> sum_list (map snd sc) | None \<Rightarrow> 0)
                 in Inr (js ''Locked. '' @ [10003] @ js ''\<newline>\<newline>Today: '' @ showInt score
                           @ js ''/10\<newline>Tomorrow is already decided.\<newline>\<newline>Sleep well. I'll remind you in the morning.'',
                         L', S(u_id user := None))))
         else Inr (js ''What do you want to change? Give me the full plan again.'', L,
                   S(u_id user \<mapsto> state\<lparr>step := Planning\<rparr>)))"

definition handleNightlyLock ::
  "(jsstring \<Rightarrow> TomorrowPlan) \<Rightarrow> (jsstring \<Rightarrow> jsstring option) \<Rightarrow> daily_logs \<Rightarrow> Pattern list
     \<Rightarrow> nightly_store \<Rightarrow> clock \<Rightarrow> User \<Rightarrow> Contract \<Rightarrow> jsstring
     \<Rightarrow> db_error + (jsstring \<times> daily_logs \<times> Pattern list \<times> nightly_store)" where
  "handleNightlyLock parseTomorrowPlan timeMatch L P S clk user contract msg =
     (let state = (case S (u_id user) of
                     Some st \<Rightarrow> st
                   | None \<Rightarrow> \<lparr>step = Start, todayScores = None, missedItems = None,
                                missReason = None, tomorrowPlan = None\<rparr>)
      in case step state of
           Start \<Rightarrow>
             (let (reply, S') = startNightlyLock S user contract in Inr (reply, L, P, S'))
         | Scoring \<Rightarrow>
             (case handleScoring L S clk user contract msg state of
                Inl e \<Rightarrow> Inl e | Inr (reply, L', S') \<Rightarrow> Inr (reply, L', P, S'))
         | MissReason \<Rightarrow>
             (let (reply, P', S') = handleMissReason timeMatch P S user msg state
              in Inr (reply, L, P', S'))
         | Planning \<Rightarrow>
             (let (reply, S') = handlePlanning parseTomorrowPlan S user msg state
              in Inr (reply, L, P, S'))
         | Confirm \<Rightarrow>
             (case handleConfirm L S clk user msg state of
                Inl e \<Rightarrow> Inl e | Inr (reply, L', S') \<Rightarrow> Inr (reply, L', P, S')))"

section \<open>Message router (routes/webhook.ts)\<close>

definition isOnboarding :: "User \<Rightarrow> bool" where
  "isOnboarding user \<longleftrightarrow> \<not> onboarding_complete user"

definition detectBadDayRequest :: "jsstring \<Rightarrow> bool" where
  "detectBadDayRequest msg =
     (let lower = toLowerCase msg;
          triggers = [js ''bad day'', js ''hard day'', js ''rough day'', js ''terrible day'',
                      js ''can't today'', js ''struggling'', js ''need a break'', js ''downshift'',
                      js ''not feeling it'', js ''overwhelmed'', js ''exhausted'', js ''burnt out'',
                      js ''burnout'']
      in list_ex (\<lambda>t. jsIncludes lower t) triggers)"

text \<open>
  What \<open>handleMessage\<close> comes to: a reply computed by the flows above, or the call of a
  handler that lies outside this development (the photo flow, onboarding as a whole, the
  score card, the weekly report, the token status, the bad-day flow, and what follows the
  reset command: rationalization, score update and intent classification).
\<close>

datatype handler =
  HandlePhotoMessage | HandleOnboarding | GetCurrentScore | GetWeeklyReport | TokenStatus
  | HandleBadDay | AfterReset

datatype outcome = Reply jsstring | Calls handler

text \<open>
  The active contract is the result of \<open>getActiveContract\<close>; \<open>mediaUrl\<close> is absent or
  a string, and an empty string is as good as absent.
\<close>

definition handleMessage ::
  "(jsstring \<Rightarrow> TomorrowPlan) \<Rightarrow> (jsstring \<Rightarrow> jsstring option) \<Rightarrow> daily_logs \<Rightarrow> Pattern list
     \<Rightarrow> nightly_store \<Rightarrow> clock \<Rightarrow> User \<Rightarrow> Contract option \<Rightarrow> jsstring \<Rightarrow> jsstring option
     \<Rightarrow> db_error + (outcome \<times> daily_logs \<times> Pattern list \<times> nightly_store)" where
  "handleMessage parseTomorrowPlan timeMatch L P S clk user activeContract msg mediaUrl =
     (if mediaUrl \<noteq> None \<and> mediaUrl \<noteq> Some [] then Inr (Calls HandlePhotoMessage, L, P, S)
      else if isOnboarding user then Inr (Calls HandleOnboarding, L, P, S)
      else
        (case activeContract of
           None \<Rightarrow>
             Inr (Reply (js ''You don't have an active contract. Send 'start' to begin onboarding.''),
                  L, P, S)
         | Some contract \<Rightarrow>
             if isInNightlyLock S (u_id user)
             then
               (case handleNightlyLock parseTomorrowPlan timeMatch L P S clk user contract msg of
                  Inl e \<Rightarrow> Inl e | Inr (reply, w) \<Rightarrow> Inr (Reply reply, w))
             else
               (let lower = trim (toLowerCase msg)
                in if lower = js ''lock'' \<or> lower = js ''nightly''
                      \<or> jsIncludes lower (js ''lock tomorrow'')
                   then
                     (case handleNightlyLock parseTomorrowPlan timeMatch L P S clk user contract msg of
                        Inl e \<Rightarrow> Inl e | Inr (reply, w) \<Rightarrow> Inr (Reply reply, w))
                   else if lower = js ''status'' \<or> lower = js ''score''
                           \<or> jsIncludes lower (js ''how am i'')
                   then Inr (Calls GetCurrentScore, L, P, S)
                   else if lower = js ''week'' \<or> lower = js ''weekly''
                           \<or> jsIncludes lower (js ''weekly report'')
                   then Inr (Calls GetWeeklyReport, L, P, S)
                   else if lower = js ''tokens'' \<or> jsIncludes lower (js ''token'')
                   then Inr (Calls TokenStatus, L, P, S)
                   else if detectBadDayRequest msg then Inr (Calls HandleBadDay, L, P, S)
                   else if lower = js ''reset''
                   then Inr (Reply (js ''State reset. What do you need?''), L, P,
                             resetNightlyLock S (u_id user))
                   else Inr (Calls AfterReset, L, P, S))))"

subsection \<open>The score card of a whole day\<close>



section \<open>Sample data\<close>

definition sample_clock :: clock where
  "sample_clock = \<lparr>js_today = js ''2024-03-06'', db_today = js ''2024-03-06'',
                     db_week = js ''2024-03-04''\<rparr>"

definition sample_user :: User where
  "sample_user =
     \<lparr>u_id = js ''u1'', phone = js ''+15550100'', u_name = Some (js ''Dana''),
      timezone = js ''America/Los_Angeles'', wake_time = Some (js ''07:00''),
      sleep_time = Some (js ''22:00''), eating_window_start = Some (js ''12:00''),
      eating_window_end = Some (js ''20:00''), risk_times = [js ''21:00''], shame_level = 2,
      loss_aversion_enabled = True, onboarding_complete = True,
      onboarding_step = js ''complete''\<rparr>"

definition sample_ledger :: tokens_table where
  "sample_ledger = snd (deductToken Map.empty sample_clock (js ''u1'') (js ''Score 3/10'') 6)"

definition sample_log :: DailyLog where
  "sample_log =
     \<lparr>user_id = js ''u1'', date = js ''2024-03-06'', scores = [(js ''walk'', 1)],
      total_score = 1, tomorrow_locked = False, tomorrow_plan = None, miss_reason = None,
      dl_notes = None\<rparr>"

definition sample_contract :: Contract where
  "sample_contract =
     \<lparr>c_user_id = js ''u1'', goal = js ''fat loss'',
      binary_actions =
        [\<lparr>name = js ''calories'', threshold = Some (js ''under 2000''), points = 2\<rparr>,
         \<lparr>name = js ''protein'', threshold = Some (js ''over 150g''), points = 2\<rparr>,
         \<lparr>name = js ''walk'', threshold = Some (js ''completed''), points = 1\<rparr>,
         \<lparr>name = js ''strength'', threshold = Some (js ''completed''), points = 1\<rparr>],
      rules_text = None, active = True\<rparr>"

definition sample_excuse :: Pattern where
  "sample_excuse = \<lparr>p_user_id = js ''u1'', pattern_type = js ''miss_reason'',
                      content = js ''worked late'', frequency = 3\<rparr>"

definition good_log :: DailyLog where
  "good_log = sample_log\<lparr>scores := [(js ''calories'', 2), (js ''protein'', 2), (js ''walk'', 1)],
                          total_score := 5\<rparr>"

definition sample_users :: users_table where
  "sample_users = [js ''u1'' \<mapsto> sample_user\<lparr>u_name := None, onboarding_complete := False,
                                              onboarding_step := js ''awaiting_name''\<rparr>]"

definition default_plan_parser :: "jsstring \<Rightarrow> TomorrowPlan" where
  "default_plan_parser msg =
     \<lparr>eating_window = js ''12pm-8pm'', first_meal = js ''12pm'', walk_time = js ''morning'',
      strength = False, danger_moment = js ''evening''\<rparr>"

definition no_time_match :: "jsstring \<Rightarrow> jsstring option" where
  "no_time_match msg = None"

definition scoring_state :: NightlyLockState where
  "scoring_state = \<lparr>step = Scoring, todayScores = None, missedItems = None, missReason = None,
                     tomorrowPlan = None\<rparr>"


section \<open>Properties of the token ledger\<close>

lemma getOrCreateWeekTokens_stored:
  "snd (getOrCreateWeekTokens T clk userId) (userId, db_week clk)
     = Some (fst (getOrCreateWeekTokens T clk userId))"
  by (simp add: getOrCreateWeekTokens_def getCurrentWeekTokens_def Let_def split: option.split)

lemma deductToken_stored:
  "snd (deductToken T clk userId reason amount)
     = (snd (getOrCreateWeekTokens T clk userId))
         ((userId, db_week clk) \<mapsto> fst (deductToken T clk userId reason amount))"
  by (simp add: deductToken_def Let_def split_beta)

lemma deductToken_bounds:
  assumes "0 \<le> current_tokens (fst (getOrCreateWeekTokens T clk userId))"
    and "current_tokens (fst (getOrCreateWeekTokens T clk userId))
             \<le> starting_tokens (fst (getOrCreateWeekTokens T clk userId))"
    and "0 < amount"
  shows "0 \<le> current_tokens (fst (deductToken T clk userId reason amount))
         \<and> current_tokens (fst (deductToken T clk userId reason amount))
             \<le> starting_tokens (fst (deductToken T clk userId reason amount))
         \<and> (punishment_triggered (fst (deductToken T clk userId reason amount))
              \<longleftrightarrow> current_tokens (fst (deductToken T clk userId reason amount)) = 0)"
  using assms by (simp add: deductToken_def Let_def split_beta)

lemma tokens_reachable_bounds:
  assumes "tokens_reachable T" and "T k = Some r"
  shows "token_bounds r"
  using assms
proof (induction arbitrary: k r rule: tokens_reachable.induct)
  case tr_init
  then show ?case by simp
next
  case (tr_create T clk userId)
  show ?case
  proof (cases "T (userId, db_week clk)")
    case None
    with tr_create.prems tr_create.IH show ?thesis
      by (auto simp: getOrCreateWeekTokens_def getCurrentWeekTokens_def Let_def token_bounds_def
               split: if_splits)
  next
    case (Some old)
    with tr_create.prems tr_create.IH show ?thesis
      by (simp add: getOrCreateWeekTokens_def getCurrentWeekTokens_def)
  qed
next
  case (tr_deduct T amount clk userId reason)
  let ?tokens = "fst (getOrCreateWeekTokens T clk userId)"
  let ?T1 = "snd (getOrCreateWeekTokens T clk userId)"
  let ?result = "fst (deductToken T clk userId reason amount)"
  have T1: "\<And>k r. ?T1 k = Some r \<Longrightarrow> token_bounds r"
  proof -
    fix k r assume kr: "?T1 k = Some r"
    show "token_bounds r"
    proof (cases "T (userId, db_week clk)")
      case None
      with kr tr_deduct.IH show ?thesis
        by (auto simp: getOrCreateWeekTokens_def getCurrentWeekTokens_def Let_def
                       token_bounds_def split: if_splits)
    next
      case (Some old)
      with kr tr_deduct.IH show ?thesis
        by (simp add: getOrCreateWeekTokens_def getCurrentWeekTokens_def)
    qed
  qed
  have "token_bounds ?tokens"
    by (rule T1 [OF getOrCreateWeekTokens_stored])
  then have res: "token_bounds ?result"
    using deductToken_bounds [of T clk userId amount reason] tr_deduct.hyps(2)
    by (simp add: token_bounds_def)
  show ?case
  proof (cases "k = (userId, db_week clk)")
    case True
    with tr_deduct.prems res show ?thesis
      by (simp add: deductToken_stored)
  next
    case False
    with tr_deduct.prems have "?T1 k = Some r"
      by (simp add: deductToken_stored)
    then show ?thesis by (rule T1)
  qed
qed

text \<open>
  C1. In every ledger the program can produce, a deduction of a positive amount (for any
  user, reason and dates) returns, and stores under the user's current week, a record
  with \<open>0 \<le> current_tokens \<le> starting_tokens\<close> whose \<open>punishment_triggered\<close> holds
  exactly when \<open>current_tokens\<close> is 0; the new balance is \<open>max 0 (current - amount)\<close>
  of the record read, and the loss events are the old ones followed by the one new event.
\<close>

theorem deductToken_invariant:
  assumes "tokens_reachable T" and "0 < amount"
  shows "(let tokens = fst (getOrCreateWeekTokens T clk userId);
              result = fst (deductToken T clk userId reason amount);
              T' = snd (deductToken T clk userId reason amount)
          in 0 \<le> current_tokens result
             \<and> current_tokens result \<le> starting_tokens result
             \<and> (punishment_triggered result \<longleftrightarrow> current_tokens result = 0)
             \<and> current_tokens result = max 0 (current_tokens tokens - amount)
             \<and> starting_tokens result = starting_tokens tokens
             \<and> loss_events result
                 = loss_events tokens
                     @ [\<lparr>le_date = js_today clk, le_reason = reason, le_amount = amount\<rparr>]
             \<and> T' (userId, db_week clk) = Some result)"
proof -
  let ?T1 = "snd (getOrCreateWeekTokens T clk userId)"
  let ?tokens = "fst (getOrCreateWeekTokens T clk userId)"
  have "tokens_reachable ?T1"
    using assms(1) by (rule tr_create)
  then have "token_bounds ?tokens"
    using getOrCreateWeekTokens_stored by (rule tokens_reachable_bounds)
  then have "0 \<le> current_tokens ?tokens \<and> current_tokens ?tokens \<le> starting_tokens ?tokens"
    by (simp add: token_bounds_def)
  with assms(2) show ?thesis
    by (simp add: deductToken_def Let_def split_beta)
qed

theorem deductToken_invariant_witness:
  "tokens_reachable sample_ledger \<and> (0::int) < 2
   \<and> (let tokens = fst (getOrCreateWeekTokens sample_ledger sample_clock (js ''u1''));
           result = fst (deductToken sample_ledger sample_clock (js ''u1'')
                           (js ''Missed nightly lock'') 2)
       in current_tokens tokens = 1 \<and> current_tokens result = 0
          \<and> starting_tokens result = 7 \<and> punishment_triggered result
          \<and> loss_events result
               = loss_events tokens
                   @ [\<lparr>le_date = js ''2024-03-06'', le_reason = js ''Missed nightly lock'',
                        le_amount = 2\<rparr>])"
proof -
  have r: "tokens_reachable sample_ledger"
    unfolding sample_ledger_def by (rule tr_deduct [OF tr_init]) simp
  have a: "(0::int) < 2" by simp
  have t: "current_tokens (fst (getOrCreateWeekTokens sample_ledger sample_clock (js ''u1''))) = 1
           \<and> starting_tokens (fst (getOrCreateWeekTokens sample_ledger sample_clock (js ''u1''))) = 7"
    by (simp add: sample_ledger_def sample_clock_def deductToken_def getOrCreateWeekTokens_def
                  getCurrentWeekTokens_def Let_def)
  show ?thesis
    using r a t deductToken_invariant [OF r a, of sample_clock "js ''u1''" "js ''Missed nightly lock''"]
    by (simp add: Let_def sample_clock_def)
qed

text \<open>
  C4. For a user who has loss aversion switched off, \<open>processFailure\<close> returns the empty
  reply and \<open>checkDailyFailures\<close> returns no message, and both leave the whole token
  table, hence the user's TokenRecord, as it was.
\<close>

theorem processFailure_disabled_noop:
  assumes "\<not> loss_aversion_enabled user"
  shows "processFailure T clk user reason sev = ([], T)
         \<and> checkDailyFailures T clk user todayLog totalPossible = ([], T)"
  using assms by (simp add: processFailure_def checkDailyFailures_def)

theorem processFailure_disabled_noop_witness:
  "\<not> loss_aversion_enabled (sample_user\<lparr>loss_aversion_enabled := False\<rparr>)
   \<and> processFailure sample_ledger sample_clock (sample_user\<lparr>loss_aversion_enabled := False\<rparr>)
        (js ''Missed nightly lock'') Major = ([], sample_ledger)
   \<and> checkDailyFailures sample_ledger sample_clock
        (sample_user\<lparr>loss_aversion_enabled := False\<rparr>) sample_log 10 = ([], sample_ledger)"
proof -
  have off: "\<not> loss_aversion_enabled (sample_user\<lparr>loss_aversion_enabled := False\<rparr>)"
    by simp
  show ?thesis
    using off processFailure_disabled_noop [OF off, of sample_ledger sample_clock
            "js ''Missed nightly lock''" Major sample_log 10]
    by simp
qed

text \<open>With loss aversion on, the same failure costs two tokens and is reported.\<close>

lemma processFailure_enabled_example:
  "loss_aversion_enabled sample_user
   \<and> fst (processFailure Map.empty sample_clock sample_user (js ''Missed nightly lock'') Major)
       = [55357, 56521] @ js '' Token lost: Missed nightly lock\<newline>\<newline>Remaining this week: 5/7\<newline>\<newline>''
   \<and> map_option current_tokens
        (snd (processFailure Map.empty sample_clock sample_user (js ''Missed nightly lock'') Major)
           (js ''u1'', js ''2024-03-04'')) = Some 5"
  by (simp add: processFailure_def deductToken_def getOrCreateWeekTokens_def
                getCurrentWeekTokens_def sample_user_def sample_clock_def Let_def js_def
                showInt_def)

section \<open>Properties of the daily-log table\<close>

lemma selectLog_SomeD:
  "selectLog L userId d = Some r \<Longrightarrow> r \<in> set L \<and> user_id r = userId \<and> date r = d"
  by (auto simp: selectLog_def find_Some_iff)

lemma selectLog_None_iff:
  "selectLog L userId d = None \<longleftrightarrow> (\<forall>r\<in>set L. user_id r \<noteq> userId \<or> date r \<noteq> d)"
  by (auto simp: selectLog_def find_None_iff)

lemma setColumns_key [simp]:
  "user_id (setColumns u r) = user_id r" "date (setColumns u r) = date r"
  by (simp_all add: setColumns_def)

lemma defaultLog_key [simp]:
  "user_id (defaultLog userId d) = userId" "date (defaultLog userId d) = d"
  by (simp_all add: defaultLog_def)

lemma setColumns_idem [simp]: "setColumns u (setColumns u r) = setColumns u r"
  by (simp add: setColumns_def split: option.splits)

lemma selectLog_map_same:
  "selectLog (map (\<lambda>r. if user_id r = userId \<and> date r = d then setColumns u r else r) L) userId d
     = map_option (setColumns u) (selectLog L userId d)"
  by (induction L) (auto simp: selectLog_def)

lemma selectLog_map_other:
  "(userId', d') \<noteq> (userId, d) \<Longrightarrow>
   selectLog (map (\<lambda>r. if user_id r = userId \<and> date r = d then setColumns u r else r) L) userId' d'
     = selectLog L userId' d'"
  by (induction L) (auto simp: selectLog_def)

lemma selectLog_append:
  "selectLog (L @ [row]) userId d =
     (case selectLog L userId d of Some r \<Rightarrow> Some r
      | None \<Rightarrow> if user_id row = userId \<and> date row = d then Some row else None)"
  by (induction L) (auto simp: selectLog_def)

lemma map_key_rewrite:
  "map (\<lambda>r. (user_id r, date r)) (map (\<lambda>r. if user_id r = userId \<and> date r = d then setColumns u r else r) L)
     = map (\<lambda>r. (user_id r, date r)) L"
  by (induction L) auto

lemma upsert_keeps_unique:
  assumes "distinct (map (\<lambda>r. (user_id r, date r)) L)"
    and "upsertDailyLog L userId d u = Inr (row, L')"
  shows "distinct (map (\<lambda>r. (user_id r, date r)) L')"
proof (cases "selectLog L userId d")
  case None
  then have "(userId, d) \<notin> set (map (\<lambda>r. (user_id r, date r)) L)"
    by (auto simp: selectLog_None_iff)
  with assms None show ?thesis
    by (auto simp: upsertDailyLog_def Let_def)
next
  case (Some existing)
  with assms(2) have "L' = map (\<lambda>r. if user_id r = userId \<and> date r = d then setColumns u r else r) L"
    by (auto simp: upsertDailyLog_def Let_def split: if_splits)
  then have "map (\<lambda>r. (user_id r, date r)) L' = map (\<lambda>r. (user_id r, date r)) L"
    by (simp only: map_key_rewrite)
  with assms(1) show ?thesis by simp
qed

lemma logs_reachable_unique:
  "logs_reachable L \<Longrightarrow> distinct (map (\<lambda>r. (user_id r, date r)) L)"
  by (induction rule: logs_reachable.induct) (auto intro: upsert_keeps_unique)

lemma distinct_key_count:
  "distinct (map (\<lambda>r. (user_id r, date r)) L) \<Longrightarrow>
   length (filter (\<lambda>r. user_id r = userId \<and> date r = d) L) \<le> 1"
  by (induction L) (auto simp: filter_empty_conv image_iff)

lemma upsert_selects_row:
  assumes "upsertDailyLog L userId d u = Inr (row, L')"
  shows "selectLog L' userId d = Some row"
  using assms
  by (auto simp: upsertDailyLog_def Let_def selectLog_map_same selectLog_append
           split: option.splits if_splits)

lemma upsert_other_rows:
  assumes "upsertDailyLog L userId d u = Inr (row, L')"
  shows "filter (\<lambda>r. \<not> (user_id r = userId \<and> date r = d)) L'
           = filter (\<lambda>r. \<not> (user_id r = userId \<and> date r = d)) L"
proof -
  have "filter (\<lambda>r. \<not> (user_id r = userId \<and> date r = d))
          (map (\<lambda>r. if user_id r = userId \<and> date r = d then setColumns u r else r) L)
        = filter (\<lambda>r. \<not> (user_id r = userId \<and> date r = d)) L"
    by (induction L) auto
  with assms show ?thesis
    by (auto simp: upsertDailyLog_def Let_def split: option.splits if_splits)
qed

text \<open>
  C9. In every table the program can produce, a successful \<open>upsertDailyLog\<close> for any
  user, date and partial update leaves, in an existing row of that user and date, every
  column whose key is absent from the update as it was (and the key columns too); the
  row it returns is the stored one, the rows of other users and dates are untouched, and
  the table holds at most one row per user and date.
\<close>

theorem upsertDailyLog_frame:
  assumes "logs_reachable L" and "upsertDailyLog L userId d updates = Inr (row, L')"
  shows "(\<forall>old. selectLog L userId d = Some old \<longrightarrow>
            user_id row = user_id old \<and> date row = date old
            \<and> (up_scores updates = None \<longrightarrow> scores row = scores old)
            \<and> (up_total_score updates = None \<longrightarrow> total_score row = total_score old)
            \<and> (up_tomorrow_locked updates = None \<longrightarrow> tomorrow_locked row = tomorrow_locked old)
            \<and> (up_tomorrow_plan updates = None \<longrightarrow> tomorrow_plan row = tomorrow_plan old)
            \<and> (up_miss_reason updates = None \<longrightarrow> miss_reason row = miss_reason old)
            \<and> (up_notes updates = None \<longrightarrow> dl_notes row = dl_notes old))
         \<and> selectLog L' userId d = Some row
         \<and> filter (\<lambda>r. \<not> (user_id r = userId \<and> date r = d)) L'
             = filter (\<lambda>r. \<not> (user_id r = userId \<and> date r = d)) L
         \<and> (\<forall>userId' d'. length (filter (\<lambda>r. user_id r = userId' \<and> date r = d') L') \<le> 1)"
proof -
  have frame: "\<forall>old. selectLog L userId d = Some old \<longrightarrow>
            user_id row = user_id old \<and> date row = date old
            \<and> (up_scores updates = None \<longrightarrow> scores row = scores old)
            \<and> (up_total_score updates = None \<longrightarrow> total_score row = total_score old)
            \<and> (up_tomorrow_locked updates = None \<longrightarrow> tomorrow_locked row = tomorrow_locked old)
            \<and> (up_tomorrow_plan updates = None \<longrightarrow> tomorrow_plan row = tomorrow_plan old)
            \<and> (up_miss_reason updates = None \<longrightarrow> miss_reason row = miss_reason old)
            \<and> (up_notes updates = None \<longrightarrow> dl_notes row = dl_notes old)"
    using assms(2)
    by (auto simp: upsertDailyLog_def Let_def setColumns_def split: if_splits)
  have "distinct (map (\<lambda>r. (user_id r, date r)) L')"
    using logs_reachable_unique [OF assms(1)] assms(2) by (rule upsert_keeps_unique)
  then have one: "\<forall>userId' d'. length (filter (\<lambda>r. user_id r = userId' \<and> date r = d') L') \<le> 1"
    by (blast intro: distinct_key_count)
  from frame upsert_selects_row [OF assms(2)] upsert_other_rows [OF assms(2)] one
  show ?thesis by blast
qed

theorem upsertDailyLog_frame_witness:
  "logs_reachable [sample_log]
   \<and> upsertDailyLog [sample_log] (js ''u1'') (js ''2024-03-06'')
        (no_updates\<lparr>up_notes := Some (Some (js ''DOWNSHIFT: bad day declared''))\<rparr>)
       = Inr (sample_log\<lparr>dl_notes := Some (js ''DOWNSHIFT: bad day declared'')\<rparr>,
              [sample_log\<lparr>dl_notes := Some (js ''DOWNSHIFT: bad day declared'')\<rparr>])
   \<and> scores (sample_log\<lparr>dl_notes := Some (js ''DOWNSHIFT: bad day declared'')\<rparr>)
       = scores sample_log
   \<and> total_score (sample_log\<lparr>dl_notes := Some (js ''DOWNSHIFT: bad day declared'')\<rparr>)
       = total_score sample_log
   \<and> length (filter (\<lambda>r. user_id r = js ''u1'' \<and> date r = js ''2024-03-06'')
               [sample_log\<lparr>dl_notes := Some (js ''DOWNSHIFT: bad day declared'')\<rparr>]) \<le> 1"
proof -
  have "upsertDailyLog [] (js ''u1'') (js ''2024-03-06'')
          (no_updates\<lparr>up_scores := Some [(js ''walk'', 1)], up_total_score := Some 1\<rparr>)
        = Inr (sample_log, [sample_log])"
    by (simp add: upsertDailyLog_def selectLog_def setColumns_def defaultLog_def no_updates_def
                  sample_log_def Let_def)
  with lr_init have r: "logs_reachable [sample_log]"
    by (rule lr_upsert)
  have u: "upsertDailyLog [sample_log] (js ''u1'') (js ''2024-03-06'')
             (no_updates\<lparr>up_notes := Some (Some (js ''DOWNSHIFT: bad day declared''))\<rparr>)
           = Inr (sample_log\<lparr>dl_notes := Some (js ''DOWNSHIFT: bad day declared'')\<rparr>,
                  [sample_log\<lparr>dl_notes := Some (js ''DOWNSHIFT: bad day declared'')\<rparr>])"
    by (simp add: upsertDailyLog_def selectLog_def setColumns_def no_updates_def sample_log_def
                  textParam_def Let_def)
  have s: "selectLog [sample_log] (js ''u1'') (js ''2024-03-06'') = Some sample_log"
    by (simp add: selectLog_def sample_log_def)
  show ?thesis
    using r u s upsertDailyLog_frame [OF r u]
    by (simp add: no_updates_def)
qed

section \<open>Properties of the scoring engine\<close>

lemma upsert_returns:
  "u \<noteq> no_updates \<Longrightarrow> \<exists>row L1. upsertDailyLog L userId d u = Inr (row, L1)"
  by (simp add: upsertDailyLog_def Let_def split: option.split)

lemma upsert_select_other:
  assumes "upsertDailyLog L userId d u = Inr (row, L1)" and "(userId', d') \<noteq> (userId, d)"
  shows "selectLog L1 userId' d' = selectLog L userId' d'"
proof (cases "selectLog L userId d")
  case None
  with assms show ?thesis
    by (auto simp: upsertDailyLog_def Let_def selectLog_append split: option.splits)
next
  case (Some existing)
  with assms(1) have "L1 = map (\<lambda>r. if user_id r = userId \<and> date r = d then setColumns u r else r) L"
    by (auto simp: upsertDailyLog_def Let_def split: if_splits)
  then show ?thesis
    using selectLog_map_other [OF assms(2)] by simp
qed

lemma upsert_idem:
  assumes "upsertDailyLog L userId d u = Inr (row, L1)" and "u \<noteq> no_updates"
  shows "upsertDailyLog L1 userId d u = Inr (row, L1)"
proof -
  let ?f = "\<lambda>r. if user_id r = userId \<and> date r = d then setColumns u r else r"
  have sel: "selectLog L1 userId d = Some row"
    using assms(1) by (rule upsert_selects_row)
  have fix_row: "setColumns u row = row \<and> map ?f L1 = L1"
  proof (cases "selectLog L userId d")
    case None
    then have "\<And>r. r \<in> set L \<Longrightarrow> ?f r = r"
      by (auto simp: selectLog_None_iff)
    then have "map ?f L = L"
      by (rule map_idI)
    with None assms(1) show ?thesis
      by (auto simp: upsertDailyLog_def Let_def)
  next
    case (Some existing)
    with assms(1) have eq: "row = setColumns u existing" "L1 = map ?f L"
      by (auto simp: upsertDailyLog_def Let_def split: if_splits)
    have "map ?f (map ?f L) = map ?f L"
      by (induction L) auto
    with eq show ?thesis by simp
  qed
  with sel assms(2) show ?thesis
    by (simp add: upsertDailyLog_def Let_def)
qed

lemma upsert_scores:
  assumes "upsertDailyLog L userId d (no_updates\<lparr>up_scores := Some s, up_total_score := Some t\<rparr>)
             = Inr (row, L1)"
  shows "scores row = s \<and> total_score row = t"
  using assms
  by (auto simp: upsertDailyLog_def Let_def setColumns_def no_updates_def
           split: option.splits if_splits)

text \<open>
  C5. \<open>updateScore\<close> is idempotent: for every table, user, contract and update (so for
  a \<open>completed = true\<close> update of an action of the contract), it returns, and a second
  application to the table it produced returns the same result (the same total) and
  the same table (the same stored scores map).
\<close>

theorem updateScore_idempotent:
  "\<exists>res L1. updateScore L clk user contract upd = Inr (res, L1)
            \<and> updateScore L1 clk user contract upd = Inr (res, L1)"
proof (cases "find (\<lambda>a. toLowerCase (name a) = toLowerCase (su_action upd)) (binary_actions contract)")
  case None
  then show ?thesis
    by (simp add: updateScore_def Let_def)
next
  case (Some a)
  define earned where "earned = (if su_completed upd then points a else 0)"
  define s0 where "s0 = (case getTodayLog L clk (u_id user) of Some l \<Rightarrow> scores l | None \<Rightarrow> [])"
  define s1 where "s1 = AList.update (name a) earned s0"
  define u where "u = no_updates\<lparr>up_scores := Some s1, up_total_score := Some (sum_list (map snd s1))\<rparr>"
  have nonempty: "u \<noteq> no_updates"
    by (simp add: u_def no_updates_def)
  then obtain row L1 where up: "upsertDailyLog L (u_id user) (js_today clk) u = Inr (row, L1)"
    using upsert_returns by blast
  have again: "upsertDailyLog L1 (u_id user) (js_today clk) u = Inr (row, L1)"
    using up nonempty by (rule upsert_idem)
  have "AList.update (name a) earned
          (case getTodayLog L1 clk (u_id user) of Some l \<Rightarrow> scores l | None \<Rightarrow> []) = s1"
  proof (cases "db_today clk = js_today clk")
    case True
    have "selectLog L1 (u_id user) (js_today clk) = Some row"
      using up by (rule upsert_selects_row)
    moreover have "scores row = s1"
      using up upsert_scores unfolding u_def by blast
    ultimately show ?thesis
      using True by (simp add: getTodayLog_def s1_def)
  next
    case False
    then have "selectLog L1 (u_id user) (db_today clk) = selectLog L (u_id user) (db_today clk)"
      using upsert_select_other [OF up] by simp
    then show ?thesis
      by (simp add: getTodayLog_def s1_def s0_def)
  qed
  with Some up again show ?thesis
    by (simp add: updateScore_def Let_def earned_def s0_def s1_def u_def)
qed

text \<open>
  C6. When the update's action name equals, ignoring case, the name of no action of the
  contract, \<open>updateScore\<close> returns normally (no exception) the zero result with the
  message \<open>Unknown action: <name>\<close> and the table of daily logs is unchanged.
\<close>

theorem updateScore_unknown_action:
  assumes "\<forall>a\<in>set (binary_actions contract). toLowerCase (name a) \<noteq> toLowerCase (su_action upd)"
  shows "updateScore L clk user contract upd
           = Inr (\<lparr>r_newScore = 0, r_totalPossible = 0,
                   r_message = js ''Unknown action: '' @ su_action upd\<rparr>, L)"
proof -
  have "find (\<lambda>a. toLowerCase (name a) = toLowerCase (su_action upd)) (binary_actions contract) = None"
    using assms by (simp add: find_None_iff)
  then show ?thesis
    by (simp add: updateScore_def Let_def)
qed

text \<open>Logging the walk twice on a day that starts without a row.\<close>

lemma updateScore_twice_example:
  "map_option (\<lambda>(res, L1). (r_newScore res, r_totalPossible res, map scores L1, map total_score L1))
     (case updateScore [] sample_clock sample_user sample_contract
             \<lparr>su_action = js ''Walk'', su_completed = True, su_value = None\<rparr> of
        Inl e \<Rightarrow> None
      | Inr (res, L1) \<Rightarrow>
          (case updateScore L1 sample_clock sample_user sample_contract
                  \<lparr>su_action = js ''Walk'', su_completed = True, su_value = None\<rparr> of
             Inl e \<Rightarrow> None | Inr x \<Rightarrow> Some x))
   = Some (1, 6, [(js ''walk'', 1) # Nil], [1])"
  by (simp add: updateScore_def getTodayLog_def upsertDailyLog_def selectLog_def setColumns_def
                defaultLog_def no_updates_def sample_clock_def sample_user_def
                sample_contract_def toLowerCase_def lowerUnit_def js_def Let_def)

theorem updateScore_unknown_action_witness:
  "list_all (\<lambda>a. toLowerCase (name a) \<noteq> toLowerCase (js ''Yoga'')) (binary_actions sample_contract)
   \<and> updateScore [sample_log] sample_clock sample_user sample_contract
        \<lparr>su_action = js ''Yoga'', su_completed = True, su_value = None\<rparr>
       = Inr (\<lparr>r_newScore = 0, r_totalPossible = 0, r_message = js ''Unknown action: Yoga''\<rparr>,
              [sample_log])"
proof -
  have h: "\<forall>a\<in>set (binary_actions sample_contract).
             toLowerCase (name a)
               \<noteq> toLowerCase (su_action \<lparr>su_action = js ''Yoga'', su_completed = True, su_value = None\<rparr>)"
    by (simp add: sample_contract_def toLowerCase_def lowerUnit_def js_def)
  show ?thesis
    using h updateScore_unknown_action [OF h, of "[sample_log]" sample_clock sample_user]
    by (simp add: list_all_iff js_def)
qed

section \<open>Properties of the shame escalation\<close>

lemma countFailuresFrom_takeWhile:
  "countFailuresFrom count logs = count + length (takeWhile (\<lambda>l. total_score l < 5) logs)"
  by (induction logs arbitrary: count) auto

lemma countConsecutiveFailures_eq: "countConsecutiveFailures logs = consecutive_failures logs"
  by (simp add: countConsecutiveFailures_def consecutive_failures_def countFailuresFrom_takeWhile)

lemma repeated_excuse_filter:
  "repeated_excuse patterns
     \<longleftrightarrow> 0 < length (filter (\<lambda>p. pattern_type p = js ''miss_reason'' \<and> frequency p \<ge> 2) patterns)"
  by (induction patterns) (auto simp: repeated_excuse_def)

text \<open>
  C2, as the claim words it, fails: with shame level 2, one failed day and a
  \<open>miss_reason\<close> seen three times, the conditions of tier 2 and of tier 1 both hold; the
  order 3, 2, 1 selects tier 2, the code returns tier 1.
\<close>

theorem shame_priority_counterexample:
  "first_matching_tier [3, 2, 1] (shame_level sample_user) [sample_log] [sample_excuse] = Some 2
   \<and> map_option level (determineShameEscalation sample_user [sample_log] [sample_excuse]) = Some 1"
  by (simp add: first_matching_tier_def tier_condition_def failed_days_def
                consecutive_failures_def repeated_excuse_def determineShameEscalation_def
                countConsecutiveFailures_def sample_user_def sample_log_def sample_excuse_def
                Let_def)

text \<open>
  C2, amended. For every user, window of logs (newest first) and list of patterns, the
  tier that \<open>determineShameEscalation\<close> returns is the first whose condition holds in
  the fixed priority order tier 1, tier 2, tier 3; shame level 0 always yields none, and
  none is returned when no condition holds.
\<close>

theorem determineShameEscalation_priority:
  "map_option level (determineShameEscalation user recentLogs patterns)
     = first_matching_tier [1, 2, 3] (shame_level user) recentLogs patterns"
  by (simp add: determineShameEscalation_def first_matching_tier_def tier_condition_def
                countConsecutiveFailures_eq repeated_excuse_filter failed_days_def Let_def)

theorem determineShameEscalation_priority_witness:
  "map_option level (determineShameEscalation sample_user [good_log] [sample_excuse]) = Some 2
   \<and> first_matching_tier [1, 2, 3] (shame_level sample_user) [good_log] [sample_excuse] = Some 2"
  using determineShameEscalation_priority [of sample_user "[good_log]" "[sample_excuse]"]
  by (simp add: first_matching_tier_def tier_condition_def failed_days_def
                consecutive_failures_def repeated_excuse_def sample_user_def sample_log_def
                good_log_def sample_excuse_def)

text \<open>
  The same order keeps tier 3 behind tier 2: four failed days in a row at shame level 3
  give tier 2.
\<close>

lemma shame_tier3_behind_tier2:
  "map_option level
     (determineShameEscalation (sample_user\<lparr>shame_level := 3\<rparr>)
        [sample_log, sample_log, sample_log, sample_log] []) = Some 2
   \<and> first_matching_tier [3, 2, 1] 3 [sample_log, sample_log, sample_log, sample_log] [] = Some 3"
  by (simp add: first_matching_tier_def tier_condition_def failed_days_def
                consecutive_failures_def repeated_excuse_def determineShameEscalation_def
                countConsecutiveFailures_def sample_user_def sample_log_def Let_def)

section \<open>Properties of the onboarding parsers\<close>

lemma trim_empty_iff: "trim s = [] \<longleftrightarrow> (\<forall>c\<in>set s. isWhiteSpace c)"
proof
  assume "trim s = []"
  then have all: "\<forall>c\<in>set (dropWhile isWhiteSpace s). isWhiteSpace c"
    by (simp add: trim_def)
  have "dropWhile isWhiteSpace s = []"
  proof (rule ccontr)
    assume ne: "dropWhile isWhiteSpace s \<noteq> []"
    then have "\<not> isWhiteSpace (hd (dropWhile isWhiteSpace s))"
      by (rule hd_dropWhile)
    moreover have "hd (dropWhile isWhiteSpace s) \<in> set (dropWhile isWhiteSpace s)"
      using ne by (rule hd_in_set)
    ultimately show False using all by blast
  qed
  then show "\<forall>c\<in>set s. isWhiteSpace c"
    by simp
next
  assume "\<forall>c\<in>set s. isWhiteSpace c"
  then show "trim s = []"
    by (auto simp: trim_def dest: set_dropWhileD)
qed

lemma cleanLine_blank: "trim l = [] \<Longrightarrow> cleanLine l = []"
proof -
  assume "trim l = []"
  then have "\<forall>c\<in>set l. isBulletChar c"
    by (simp add: trim_empty_iff isBulletChar_def)
  then have d: "dropWhile isBulletChar l = []"
    by simp
  show ?thesis
    unfolding cleanLine_def d trim_def by simp
qed

lemma parseLines_append: "parseLines lines acc = acc @ parseLines lines []"
proof (induction lines arbitrary: acc)
  case Nil
  show ?case by simp
next
  case (Cons line lines)
  show ?case
    using Cons.IH [of "acc @ [x]" for x] Cons.IH [of "[x]" for x] Cons.IH [of acc]
    by (simp add: Let_def split: option.split)
qed

lemma parseLines_length:
  "length (parseLines lines acc) = length acc + length (filter (\<lambda>l. cleanLine l \<noteq> []) lines)"
  by (induction lines arbitrary: acc) (auto simp: Let_def split: option.split)

lemma parseLines_points: "a \<in> set (parseLines lines []) \<Longrightarrow> points a = 1"
proof (induction lines)
  case Nil
  then show ?case by simp
next
  case (Cons line lines)
  show ?case
  proof (cases "cleanLine line = []")
    case True
    with Cons show ?thesis by simp
  next
    case False
    have "\<exists>x. points x = 1 \<and> a \<in> set (parseLines lines [x])"
    proof (cases "matchThreshold (cleanLine line)")
      case None
      let ?x = "\<lparr>name = replaceWhiteSpace (toLowerCase (cleanLine line)),
                 threshold = Some (js ''completed''), points = 1\<rparr>"
      have "points ?x = 1" by simp
      moreover have "a \<in> set (parseLines lines [?x])"
        using None False Cons.prems by (simp add: Let_def)
      ultimately show ?thesis by blast
    next
      case (Some m1)
      let ?x = "\<lparr>name = replaceWhiteSpace (toLowerCase m1),
                 threshold = Some (cleanLine line), points = 1\<rparr>"
      have "points ?x = 1" by simp
      moreover have "a \<in> set (parseLines lines [?x])"
        using Some False Cons.prems by (simp add: Let_def)
      ultimately show ?thesis by blast
    qed
    then obtain x where "points x = 1" and "a \<in> set (parseLines lines [x])"
      by blast
    then show ?thesis
      using Cons.IH parseLines_append [of lines "[x]"] by auto
  qed
qed

lemma filter_cleaned:
  "filter (\<lambda>l. trim l \<noteq> [] \<and> cleanLine l \<noteq> []) ls = filter (\<lambda>l. cleanLine l \<noteq> []) ls"
  by (induction ls) (auto dest: cleanLine_blank)

lemma parseBinaryActions_length:
  "length (parseBinaryActions msg) = length (filter (\<lambda>l. cleanLine l \<noteq> []) (jsSplit 10 msg))"
  by (simp add: parseBinaryActions_def Let_def parseLines_length filter_cleaned)

lemma weights_after_update:
  assumes "\<And>j. j < length xs \<Longrightarrow> points (xs ! j) = 1" and "2 \<le> length xs" and "i < length xs"
  shows "points (xs[0 := (xs ! 0)\<lparr>points := 2\<rparr>, 1 := (xs ! 1)\<lparr>points := 2\<rparr>] ! i)
           = (if i < 2 then 2 else 1)"
proof -
  consider "i = 0" | "i = 1" | "2 \<le> i" by arith
  then show ?thesis
  proof cases
    case 1
    with assms show ?thesis by simp
  next
    case 2
    with assms show ?thesis by simp
  next
    case 3
    with assms show ?thesis by simp
  qed
qed

lemma parseBinaryActions_weights: "first_two_weighted_if_two (parseBinaryActions msg)"
proof -
  let ?acts = "parseLines (filter (\<lambda>l. trim l \<noteq> []) (jsSplit 10 msg)) []"
  have one: "\<And>i. i < length ?acts \<Longrightarrow> points (?acts ! i) = 1"
    using parseLines_points nth_mem by blast
  show ?thesis
  proof (cases "2 \<le> length ?acts")
    case True
    then show ?thesis
      using weights_after_update [of ?acts, OF one True]
      by (simp add: first_two_weighted_if_two_def parseBinaryActions_def Let_def list_all_iff)
  next
    case False
    then show ?thesis
      using one
      by (simp add: first_two_weighted_if_two_def parseBinaryActions_def Let_def list_all_iff)
  qed
qed

lemma parseBinaryActions_example: "parseBinaryActions (js ''calories\<newline>protein\<newline>walk'')
           = [\<lparr>name = js ''calories'', threshold = Some (js ''completed''), points = 2\<rparr>,
              \<lparr>name = js ''protein'', threshold = Some (js ''completed''), points = 2\<rparr>,
              \<lparr>name = js ''walk'', threshold = Some (js ''completed''), points = 1\<rparr>]"
  by (simp add: parseBinaryActions_def cleanLine_def trim_def isBulletChar_def isWhiteSpace_def
                isDigit_def matchThreshold_def toLowerCase_def lowerUnit_def js_def Let_def)



lemma DEFAULT_BINARY_ACTIONS_total:
  "length DEFAULT_BINARY_ACTIONS = 8 \<and> sum_list (map points DEFAULT_BINARY_ACTIONS) = 10"
  by (simp add: DEFAULT_BINARY_ACTIONS_def)

lemma handleActionsInput_stores:
  "map_option od_binaryActions (snd (snd (handleActionsInput U D user msg)) (u_id user))
     = Some (Some (if parseBinaryActions msg = [] then DEFAULT_BINARY_ACTIONS
                   else parseBinaryActions msg))"
  by (simp add: handleActionsInput_def Let_def)

text \<open>
  C3, as the claim words it, fails: when a single action parses, it is the first of
  "the first two" and yet keeps one point.
\<close>

theorem single_action_counterexample:
  "parseBinaryActions (js ''walk'')
     = [\<lparr>name = js ''walk'', threshold = Some (js ''completed''), points = 1\<rparr>]
   \<and> \<not> first_two_weighted (parseBinaryActions (js ''walk''))"
  by (simp add: parseBinaryActions_def cleanLine_def trim_def isBulletChar_def isWhiteSpace_def
                isDigit_def matchThreshold_def toLowerCase_def lowerUnit_def js_def Let_def
                first_two_weighted_def)


text \<open>
  C3, amended. For every actions message, \<open>parseBinaryActions\<close> returns one action per
  line that is not empty after the bullet and numbering prefix is stripped; every action
  has one point, except that the first two have two points when at least two actions
  were parsed. \<open>handleActionsInput\<close> stores the parsed actions, or the default template
  of 8 actions totalling 10 points when none was parsed. The message
  \<open>calories\nprotein\nwalk\<close> parses to calories (2), protein (2), walk (1).
\<close>

theorem parseBinaryActions_weighting:
  "length (parseBinaryActions msg) = length (filter (\<lambda>l. cleanLine l \<noteq> []) (jsSplit 10 msg))
   \<and> first_two_weighted_if_two (parseBinaryActions msg)
   \<and> map_option od_binaryActions (snd (snd (handleActionsInput U D user msg)) (u_id user))
       = Some (Some (if parseBinaryActions msg = [] then DEFAULT_BINARY_ACTIONS
                     else parseBinaryActions msg))
   \<and> length DEFAULT_BINARY_ACTIONS = 8 \<and> sum_list (map points DEFAULT_BINARY_ACTIONS) = 10
   \<and> parseBinaryActions (js ''calories\<newline>protein\<newline>walk'')
       = [\<lparr>name = js ''calories'', threshold = Some (js ''completed''), points = 2\<rparr>,
          \<lparr>name = js ''protein'', threshold = Some (js ''completed''), points = 2\<rparr>,
          \<lparr>name = js ''walk'', threshold = Some (js ''completed''), points = 1\<rparr>]"
  using parseBinaryActions_length parseBinaryActions_weights handleActionsInput_stores
    DEFAULT_BINARY_ACTIONS_total parseBinaryActions_example
  by blast

theorem parseBinaryActions_weighting_witness:
  "map (\<lambda>a. (name a, points a))
     (parseBinaryActions
        (js ''1. Calories under 2000\<newline>- Protein over 150g\<newline>\<newline>* walk\<newline>3)''))
     = [(js ''calories'', 2), (js ''protein'', 2), (js ''walk'', 1)]
   \<and> first_two_weighted_if_two
       (parseBinaryActions
          (js ''1. Calories under 2000\<newline>- Protein over 150g\<newline>\<newline>* walk\<newline>3)''))
   \<and> map_option od_binaryActions
       (snd (snd (handleActionsInput sample_users Map.empty sample_user (js ''\<newline>-\<newline>'')))
          (js ''u1'')) = Some (Some DEFAULT_BINARY_ACTIONS)"
proof -
  have p: "map (\<lambda>a. (name a, points a))
             (parseBinaryActions
                (js ''1. Calories under 2000\<newline>- Protein over 150g\<newline>\<newline>* walk\<newline>3)''))
           = [(js ''calories'', 2), (js ''protein'', 2), (js ''walk'', 1)]"
    by (simp add: parseBinaryActions_def cleanLine_def trim_def isBulletChar_def isWhiteSpace_def
                  isDigit_def matchThreshold_def toLowerCase_def lowerUnit_def js_def Let_def)
  have e: "parseBinaryActions (js ''\<newline>-\<newline>'') = []"
    by (simp add: parseBinaryActions_def cleanLine_def trim_def isBulletChar_def isWhiteSpace_def
                  isDigit_def js_def Let_def)
  have u: "u_id sample_user = js ''u1''"
    by (simp add: sample_user_def)
  show ?thesis
    using p e u
      parseBinaryActions_weighting [of "js ''1. Calories under 2000\<newline>- Protein over 150g\<newline>\<newline>* walk\<newline>3)''"
        sample_users Map.empty sample_user]
      parseBinaryActions_weighting [of "js ''\<newline>-\<newline>''" sample_users Map.empty sample_user]
    by simp
qed

section \<open>Properties of the name step\<close>

lemma greeting_lower: "g \<in> set greetings \<Longrightarrow> toLowerCase g = g"
  by (auto simp: greetings_def toLowerCase_def lowerUnit_def js_def)

lemma length_toLowerCase: "304 \<notin> set s \<Longrightarrow> length (toLowerCase s) = length s"
  by (induction s) (auto simp: toLowerCase_def lowerUnit_def)

lemma length_toLowerCase_ge: "length s \<le> length (toLowerCase s)"
  by (induction s) (auto simp: toLowerCase_def lowerUnit_def)

text \<open>
  C10, as the claim words it, fails twice. A trimmed text of fewer than 4 characters is
  accepted when lower-casing makes it longer: U+0130 followed by \<open>da\<close> has 3 code units,
  its lower case has 4, and the text is stored as the name. And the stored name is the
  first word of the message, so \<open>Al Smith\<close> stores the name \<open>Al\<close>. In both cases the name
  and the step \<open>awaiting_goal\<close> are stored and the reply then fails with a TypeError.
\<close>

theorem short_name_counterexample:
  "length (trim [304, 100, 97]) = 3
   \<and> length (toLowerCase (trim [304, 100, 97])) = 4
   \<and> fst (handleNameInput sample_users
            (sample_user\<lparr>u_name := None, onboarding_complete := False,
                          onboarding_step := js ''awaiting_name''\<rparr>) [304, 100, 97])
       = Inl TypeError
   \<and> map_option u_name
       (snd (handleNameInput sample_users
               (sample_user\<lparr>u_name := None, onboarding_complete := False,
                             onboarding_step := js ''awaiting_name''\<rparr>) [304, 100, 97])
          (js ''u1'')) = Some (Some [304, 100, 97])
   \<and> map_option onboarding_step
       (snd (handleNameInput sample_users
               (sample_user\<lparr>u_name := None, onboarding_complete := False,
                             onboarding_step := js ''awaiting_name''\<rparr>) [304, 100, 97])
          (js ''u1'')) = Some (js ''awaiting_goal'')
   \<and> map_option u_name
       (snd (handleNameInput sample_users
               (sample_user\<lparr>u_name := None, onboarding_complete := False,
                             onboarding_step := js ''awaiting_name''\<rparr>) (js ''Al Smith''))
          (js ''u1'')) = Some (Some (js ''Al''))
   \<and> map_option onboarding_step
       (snd (handleNameInput sample_users
               (sample_user\<lparr>u_name := None, onboarding_complete := False,
                             onboarding_step := js ''awaiting_name''\<rparr>) (js ''Al Smith''))
          (js ''u1'')) = Some (js ''awaiting_goal'')
   \<and> length (js ''Al'') = 2"
  by (simp add: handleNameInput_def isGreeting_def greetings_def trim_def isWhiteSpace_def
                toLowerCase_def lowerUnit_def toUpperCase_def upperUnit_def updateUser_def
                sample_users_def sample_user_def js_def Let_def)

text \<open>
  C10, amended. At the name step every message whose trimmed text, once lower-cased, has
  fewer than 4 code units is rejected, and so is every message whose trimmed text has
  fewer than 4 code units none of which is U+0130, and every message whose trimmed text
  is one of the fixed greeting words (in any letter case): the re-prompt is returned
  and the users table, hence the user's name and \<open>onboarding_step\<close>, is unchanged.
\<close>

theorem handleNameInput_rejects_greeting:
  assumes "length (toLowerCase (trim msg)) < 4
           \<or> (length (trim msg) < 4 \<and> 304 \<notin> set (trim msg))
           \<or> trim msg \<in> set greetings
           \<or> toLowerCase (trim msg) \<in> set greetings"
  shows "handleNameInput U user msg
           = (Inr (js ''What's your name? Just your first name is fine.''), U)"
proof -
  have "isGreeting (toLowerCase (trim msg))"
    using assms greeting_lower [of "trim msg"] length_toLowerCase [of "trim msg"]
    by (auto simp: isGreeting_def)
  then show ?thesis
    by (simp add: handleNameInput_def Let_def)
qed

theorem handleNameInput_rejects_greeting_witness:
  "trim (js ''  Amy '') = js ''Amy''
   \<and> handleNameInput sample_users sample_user (js ''  Amy '')
       = (Inr (js ''What's your name? Just your first name is fine.''), sample_users)
   \<and> toLowerCase (trim (js '' HELLO'')) = js ''hello''
   \<and> handleNameInput sample_users sample_user (js '' HELLO'')
       = (Inr (js ''What's your name? Just your first name is fine.''), sample_users)"
proof -
  have t: "trim (js ''  Amy '') = js ''Amy''"
    by (simp add: trim_def isWhiteSpace_def js_def)
  then have h: "length (toLowerCase (trim (js ''  Amy ''))) < 4
             \<or> (length (trim (js ''  Amy '')) < 4 \<and> 304 \<notin> set (trim (js ''  Amy '')))
             \<or> trim (js ''  Amy '') \<in> set greetings
             \<or> toLowerCase (trim (js ''  Amy '')) \<in> set greetings"
    by (simp add: js_def)
  have l: "toLowerCase (trim (js '' HELLO'')) = js ''hello''"
    by (simp add: trim_def isWhiteSpace_def toLowerCase_def lowerUnit_def js_def)
  then have g: "length (toLowerCase (trim (js '' HELLO''))) < 4
             \<or> (length (trim (js '' HELLO'')) < 4 \<and> 304 \<notin> set (trim (js '' HELLO'')))
             \<or> trim (js '' HELLO'') \<in> set greetings
             \<or> toLowerCase (trim (js '' HELLO'')) \<in> set greetings"
    by (simp add: greetings_def)
  show ?thesis
    using t l handleNameInput_rejects_greeting [OF h, of sample_users sample_user]
      handleNameInput_rejects_greeting [OF g, of sample_users sample_user]
    by simp
qed

text \<open>
  Every other message is taken as a name: the capitalised first word and the step
  \<open>awaiting_goal\<close> are stored, and the missing prompt makes the reply a TypeError.
\<close>

lemma handleNameInput_accepts:
  assumes "4 \<le> length (toLowerCase (trim msg))" and "toLowerCase (trim msg) \<notin> set greetings"
  shows "fst (handleNameInput U user msg) = Inl TypeError"
  using assms by (simp add: handleNameInput_def isGreeting_def Let_def)

section \<open>Properties of the nightly lock\<close>






text \<open>
  Every contract the program creates has at least one action: the onboarding store holds
  parsed actions only when there are some, and the default template stands in otherwise.
\<close>

lemma contractActions_nonempty_default:
  "D (u_id user) = None \<Longrightarrow> contractActions D user \<noteq> []"
  by (simp add: contractActions_def DEFAULT_BINARY_ACTIONS_def)

lemma contractActions_nonempty_parsed:
  "contractActions (snd (snd (handleActionsInput U D user msg))) user \<noteq> []"
  by (simp add: contractActions_def handleActionsInput_def Let_def DEFAULT_BINARY_ACTIONS_def)




text \<open>
  The transition on \<open>none\<close> is taken because some item is missed: with a contract that
  lists no action (none that the program creates) the session goes to \<open>planning\<close>.
\<close>

lemma handleScoring_none_without_actions:
  "map_sum id (\<lambda>(reply, L', S'). map_option step (S' (js ''u1'')))
     (handleScoring [] [js ''u1'' \<mapsto> scoring_state] sample_clock sample_user
        (sample_contract\<lparr>binary_actions := []\<rparr>) (js ''none'') scoring_state)
   = Inr (Some Planning)"
  by (simp add: handleScoring_def upsertDailyLog_def selectLog_def setColumns_def defaultLog_def
                no_updates_def scoring_state_def sample_user_def sample_clock_def
                toLowerCase_def lowerUnit_def js_def Let_def)

section \<open>Properties of the message router\<close>

lemma handleScoring_keeps_session:
  "handleScoring L S clk user contract msg state = Inr (reply, L', S') \<Longrightarrow> S' (u_id user) \<noteq> None"
  by (auto simp: handleScoring_def Let_def split_beta split: sum.splits if_splits)

lemma handleNightlyLock_keeps_session:
  assumes "toUpperCase (trim msg) \<noteq> js ''LOCKED''"
    and "handleNightlyLock pp tm L P S clk user contract msg = Inr (reply, L', P', S')"
  shows "S' (u_id user) \<noteq> None"
proof -
  define state where "state = (case S (u_id user) of
                     Some st \<Rightarrow> st
                   | None \<Rightarrow> \<lparr>step = Start, todayScores = None, missedItems = None,
                                missReason = None, tomorrowPlan = None\<rparr>)"
  show ?thesis
  proof (cases "step state")
    case Start
    with assms(2) show ?thesis
      by (auto simp: handleNightlyLock_def startNightlyLock_def Let_def state_def)
  next
    case Scoring
    with assms(2) show ?thesis
      by (auto simp: handleNightlyLock_def Let_def state_def split: sum.splits
               dest: handleScoring_keeps_session)
  next
    case MissReason
    with assms(2) show ?thesis
      by (auto simp: handleNightlyLock_def handleMissReason_def Let_def state_def)
  next
    case Planning
    with assms(2) show ?thesis
      by (auto simp: handleNightlyLock_def handlePlanning_def Let_def state_def)
  next
    case Confirm
    with assms show ?thesis
      by (auto simp: handleNightlyLock_def handleConfirm_def Let_def state_def split: sum.splits)
  qed
qed

lemma reset_not_locked: "toUpperCase (trim (js ''reset'')) \<noteq> js ''LOCKED''"
  by (simp add: toUpperCase_def upperUnit_def trim_def isWhiteSpace_def js_def)

text \<open>
  In general the reset command never ends a session: with a session in progress the
  message goes to the nightly-lock flow, which keeps the session; and the command itself
  is reached only when there is no session to clear.
\<close>

lemma reset_keeps_session:
  assumes "isInNightlyLock S (u_id user)" and "onboarding_complete user"
    and "handleMessage pp tm L P S clk user (Some contract) (js ''reset'') None
           = Inr (out, L', P', S')"
  shows "isInNightlyLock S' (u_id user)"
  using assms handleNightlyLock_keeps_session [OF reset_not_locked]
  by (auto simp: handleMessage_def isOnboarding_def isInNightlyLock_def split: sum.splits)

lemma reset_without_session:
  "\<not> isInNightlyLock S userId \<Longrightarrow> resetNightlyLock S userId = S"
  by (auto simp: isInNightlyLock_def resetNightlyLock_def)

text \<open>
  C8, at a failing input. The user has finished onboarding, has an active contract and a
  nightly-lock session in its scoring step, and sends \<open>reset\<close>. The router hands the
  message to the nightly-lock flow, which scores it as a day with every action missed and
  moves the session to \<open>miss_reason\<close>: after the message the session is still in
  progress.
\<close>

theorem handleMessage_reset_in_session:
  "isInNightlyLock [js ''u1'' \<mapsto> scoring_state] (js ''u1'')
   \<and> handleMessage default_plan_parser no_time_match [] [] [js ''u1'' \<mapsto> scoring_state]
        sample_clock sample_user (Some sample_contract) (js ''reset'') None
      = Inr (Reply (js ''You missed: calories, protein, walk, strength, calories, protein, walk, strength\<newline>\<newline>One sentence: What happened?''),
             [\<lparr>user_id = js ''u1'', date = js ''2024-03-06'',
               scores = [(js ''calories'', 0), (js ''protein'', 0), (js ''walk'', 0),
                         (js ''strength'', 0)],
               total_score = 0, tomorrow_locked = False, tomorrow_plan = None,
               miss_reason = None, dl_notes = None\<rparr>],
             [],
             [js ''u1'' \<mapsto>
                \<lparr>step = MissReason,
                 todayScores = Some [(js ''calories'', 0), (js ''protein'', 0), (js ''walk'', 0),
                                     (js ''strength'', 0)],
                 missedItems = Some [js ''calories'', js ''protein'', js ''walk'', js ''strength'',
                                     js ''calories'', js ''protein'', js ''walk'', js ''strength''],
                 missReason = None, tomorrowPlan = None\<rparr>])
   \<and> isInNightlyLock
        [js ''u1'' \<mapsto>
           \<lparr>step = MissReason,
            todayScores = Some [(js ''calories'', 0), (js ''protein'', 0), (js ''walk'', 0),
                                (js ''strength'', 0)],
            missedItems = Some [js ''calories'', js ''protein'', js ''walk'', js ''strength'',
                                js ''calories'', js ''protein'', js ''walk'', js ''strength''],
            missReason = None, tomorrowPlan = None\<rparr>] (js ''u1'')"
  by (simp add: handleMessage_def handleNightlyLock_def handleScoring_def isOnboarding_def
                isInNightlyLock_def upsertDailyLog_def selectLog_def setColumns_def
                defaultLog_def no_updates_def nightly_lock_reason_def scoring_state_def
                sample_clock_def sample_user_def sample_contract_def toLowerCase_def
                lowerUnit_def isWhiteSpace_def js_def Let_def)

end
